theory Spec2Isabelle
  imports Complex_Main
begin

section \<open>Numbers, errors and rendered text\<close>

text \<open>
  The calculator \<^verbatim>\<open>drone_app.py\<close> is one script, run top to bottom on every input change.
  Its numbers are Python floats and numpy \<^verbatim>\<open>float64\<close> values. Finite float arithmetic is
  idealised here as arithmetic on \<^typ>\<open>real\<close>: no rounding, overflow or underflow, and a zero
  is taken as \<^verbatim>\<open>+0.0\<close>. What the two kinds of number do outside the finite range is kept:
  \<^item> a division of Python floats (or of a float by an int) by zero raises
    \<^verbatim>\<open>ZeroDivisionError\<close>;
  \<^item> a numpy operation never raises: it yields \<^verbatim>\<open>inf\<close>, \<^verbatim>\<open>-inf\<close> or \<^verbatim>\<open>nan\<close>;
  \<^item> reading a name that no executed statement has bound raises \<^verbatim>\<open>NameError\<close>.
\<close>

datatype py_error = NameError string | ZeroDivisionError

datatype npfloat = Fin real | PInf | NInf | NaN

definition bind_err :: "'e + 'a \<Rightarrow> ('a \<Rightarrow> 'e + 'b) \<Rightarrow> 'e + 'b" where
  "bind_err m f = (case m of Inl e \<Rightarrow> Inl e | Inr x \<Rightarrow> f x)"

definition py_truediv :: "real \<Rightarrow> real \<Rightarrow> py_error + real" where
  "py_truediv a b = (if b = 0 then Inl ZeroDivisionError else Inr (a / b))"

definition lookup_var :: "string \<Rightarrow> 'a option \<Rightarrow> py_error + 'a" where
  "lookup_var name v = (case v of None \<Rightarrow> Inl (NameError name) | Some x \<Rightarrow> Inr x)"

definition signed_inf :: "real \<Rightarrow> npfloat" where
  "signed_inf s = (if s = 0 then NaN else if 0 < s then PInf else NInf)"

fun np_sign :: "npfloat \<Rightarrow> real" where
  "np_sign (Fin a) = sgn a"
| "np_sign PInf = 1"
| "np_sign NInf = - 1"
| "np_sign NaN = 0"

fun np_sqrt :: "npfloat \<Rightarrow> npfloat" where
  "np_sqrt (Fin a) = (if a < 0 then NaN else Fin (sqrt a))"
| "np_sqrt PInf = PInf"
| "np_sqrt NInf = NaN"
| "np_sqrt NaN = NaN"

fun np_add :: "npfloat \<Rightarrow> npfloat \<Rightarrow> npfloat" where
  "np_add NaN y = NaN"
| "np_add x NaN = NaN"
| "np_add (Fin a) (Fin b) = Fin (a + b)"
| "np_add (Fin a) y = y"
| "np_add x (Fin b) = x"
| "np_add x y = (if x = y then x else NaN)"

fun np_mul :: "npfloat \<Rightarrow> npfloat \<Rightarrow> npfloat" where
  "np_mul NaN y = NaN"
| "np_mul x NaN = NaN"
| "np_mul (Fin a) (Fin b) = Fin (a * b)"
| "np_mul x y = signed_inf (np_sign x * np_sign y)"

fun np_div :: "npfloat \<Rightarrow> npfloat \<Rightarrow> npfloat" where
  "np_div NaN y = NaN"
| "np_div x NaN = NaN"
| "np_div (Fin a) (Fin b) = (if b = 0 then signed_inf a else Fin (a / b))"
| "np_div (Fin a) y = Fin 0"
| "np_div x (Fin b) = signed_inf (np_sign x * (if b < 0 then - 1 else 1))"
| "np_div x y = NaN"

text \<open>
  An f-string is rendered symbolically, as the sequence of its literal chunks and formatted
  values: \<open>Fixed n x\<close> is \<^verbatim>\<open>{x:.nf}\<close>, \<open>Str x\<close> and \<open>StrInt k\<close> are \<^verbatim>\<open>{x}\<close> for a float and
  for an int.
\<close>

datatype piece = Lit string | Fixed nat npfloat | Str real | StrInt int

type_synonym rendered = "piece list"

datatype widget = Metric string rendered | Warning string

section \<open>Inputs and the script's variables\<close>

text \<open>
  The widgets' current values. \<open>prop_slider\<close> is the integer percentage of the propeller
  efficiency slider (0 to 100), \<open>num_rotors\<close> the integer rotor slider (2 to 8),
  \<open>battery_capacity\<close> an integer number input; every other number input is a float with no
  lower or upper bound.
\<close>

record inputs =
  air_density :: real
  gravity :: real
  wing_area :: real
  weight :: real
  cl :: real
  thrust :: real
  prop_slider :: int
  fuel_energy_density :: real
  fuel_mass :: real
  num_rotors :: int
  rotor_diameter :: real
  battery_capacity :: int
  battery_voltage :: real
  payload :: real
  frame_weight :: real
  report_btn :: bool

text \<open>
  The two names that a later section reads and that may be unbound when it does:
  \<open>stall_speed\<close> is bound only inside the guard of the aerodynamics tab, \<open>endurance\<close>
  is bound by the propulsion tab (hours) and bound again by the multirotor tab (minutes).
\<close>

record env =
  stall_speed :: "npfloat option"
  endurance :: "npfloat option"

definition env0 :: env where
  "env0 = \<lparr>stall_speed = None, endurance = None\<rparr>"

definition defaults :: inputs where
  "defaults = \<lparr>air_density = 1.225, gravity = 9.81, wing_area = 16.0, weight = 1200.0,
     cl = 1.2, thrust = 500.0, prop_slider = 80, fuel_energy_density = 43.0,
     fuel_mass = 100.0, num_rotors = 4, rotor_diameter = 0.3, battery_capacity = 10000,
     battery_voltage = 22.2, payload = 1.0, frame_weight = 1.5, report_btn = False\<rparr>"

section \<open>numpy.linspace\<close>

text \<open>
  \<^verbatim>\<open>np.linspace(start, stop, num)\<close> with the endpoint included: the samples
  \<open>k * step + start\<close> for \<open>k < num\<close> with \<open>step = (stop - start) / (num - 1)\<close>, the last
  one then overwritten with \<open>stop\<close> itself.
\<close>

definition linspace :: "real \<Rightarrow> real \<Rightarrow> nat \<Rightarrow> real list" where
  "linspace start stop num =
     (let step = (stop - start) / real (num - 1);
          y = map (\<lambda>k. real k * step + start) [0..<num]
      in if 1 < num then y[num - 1 := stop] else y)"

section \<open>Aerodynamics tab\<close>

record aero_out =
  aero_ui :: "widget list"
  speeds :: "real list"
  power_required :: "real list"

definition drag_coeff :: real where
  "drag_coeff = 0.03"

definition aerodynamics :: "inputs \<Rightarrow> env \<Rightarrow> py_error + (env \<times> aero_out)" where
  "aerodynamics i e =
     bind_err
       (if wing_area i > 0 \<and> air_density i > 0 \<and> cl i > 0 then
          bind_err (py_truediv (2 * weight i * gravity i) (air_density i * wing_area i * cl i))
            (\<lambda>q. let v = np_sqrt (Fin q)
                 in Inr (e\<lparr>stall_speed := Some v\<rparr>,
                      [Metric ''Stall Speed''
                         [Fixed 2 v, Lit '' m/s ('', Fixed 1 (np_mul v (Fin 3.6)),
                          Lit '' km/h)'']]))
        else Inr (e, [Warning ''Enter valid values for Wing Area, Air Density and Cl'']))
       (\<lambda>(e', ui).
          let sp = linspace 20 100 30;
              drag = map (\<lambda>s. 0.5 * air_density i * s\<^sup>2 * wing_area i * drag_coeff) sp;
              pw = map (\<lambda>(d, s). d * s / 1000) (zip drag sp)
          in Inr (e', \<lparr>aero_ui = ui, speeds = sp, power_required = pw\<rparr>))"

section \<open>Propulsion tab\<close>

record prop_out =
  power_available :: "npfloat option"
  prop_ui :: "widget list"

definition prop_efficiency :: "inputs \<Rightarrow> real" where
  "prop_efficiency i = real_of_int (prop_slider i) / 100"

definition propulsion :: "inputs \<Rightarrow> env \<Rightarrow> py_error + (env \<times> prop_out)" where
  "propulsion i e =
     (if prop_efficiency i > 0 then
        bind_err (lookup_var ''stall_speed'' (stall_speed e))
          (\<lambda>v. let pa = np_div (np_div (np_mul (Fin (thrust i)) v) (Fin 1000))
                           (Fin (prop_efficiency i));
                   en = np_div (Fin (fuel_energy_density i * 1000000 * fuel_mass i))
                           (np_mul (np_mul pa (Fin 1000)) (Fin 3600))
               in Inr (e\<lparr>endurance := Some en\<rparr>,
                    \<lparr>power_available = Some pa,
                     prop_ui = [Metric ''Power Available'' [Fixed 2 pa, Lit '' kW''],
                                Metric ''Estimated Endurance'' [Fixed 2 en, Lit '' hr'']]\<rparr>))
      else Inr (e, \<lparr>power_available = None, prop_ui = []\<rparr>))"

section \<open>Multirotor tab\<close>

record mr_out =
  total_weight :: real
  thrust_per_motor :: real
  disk_area :: real
  induced_velocity :: npfloat
  power_per_motor :: npfloat
  total_power :: npfloat
  total_energy :: real
  endurance_minutes :: npfloat
  payloads :: "real list"
  endurance_vals :: "npfloat list"
  throttle_vals :: "npfloat list"
  mr_ui :: "widget list"

definition disk_area_of :: "inputs \<Rightarrow> real" where
  "disk_area_of i = pi * (rotor_diameter i / 2)\<^sup>2"

text \<open>
  One pass of the body of the payload loop for the swept value \<open>p\<close>, a numpy scalar, so
  that every division in it is numpy's. \<^verbatim>\<open>frame_weight/num_rotors\<close> alone divides Python
  numbers; \<open>num_rotors\<close> is not zero there, or the division that binds \<open>thrust_per_motor\<close>
  has raised before the loop.
\<close>

definition sweep_endurance :: "inputs \<Rightarrow> real \<Rightarrow> npfloat" where
  "sweep_endurance i p =
     (let tw = np_mul (np_add (Fin p) (Fin (frame_weight i))) (Fin (gravity i));
          tpm = np_div tw (Fin (real_of_int (num_rotors i)));
          iv = np_sqrt (np_div tpm (Fin (2 * air_density i * disk_area_of i)));
          ppm = np_mul tpm iv;
          tp = np_mul ppm (Fin (real_of_int (num_rotors i)))
      in np_div (np_div (Fin (real_of_int (battery_capacity i) / 1000 * battery_voltage i * 3600)) tp)
           (Fin 60))"

definition sweep_throttle :: "inputs \<Rightarrow> real \<Rightarrow> npfloat" where
  "sweep_throttle i p =
     (let tw = np_mul (np_add (Fin p) (Fin (frame_weight i))) (Fin (gravity i));
          tpm = np_div tw (Fin (real_of_int (num_rotors i)))
      in np_div tpm
           (np_mul (Fin 9.8)
              (np_add (Fin (frame_weight i / real_of_int (num_rotors i)))
                 (np_div (Fin p) (Fin (real_of_int (num_rotors i)))))))"

fun sweep :: "inputs \<Rightarrow> real list \<Rightarrow> npfloat list \<times> npfloat list \<Rightarrow> npfloat list \<times> npfloat list" where
  "sweep i [] acc = acc"
| "sweep i (p # ps) (ev, tv) = sweep i ps (ev @ [sweep_endurance i p], tv @ [sweep_throttle i p])"

definition multirotor :: "inputs \<Rightarrow> env \<Rightarrow> py_error + (env \<times> mr_out)" where
  "multirotor i e =
     (let tw = (payload i + frame_weight i) * gravity i
      in bind_err (py_truediv tw (real_of_int (num_rotors i)))
           (\<lambda>tpm. let da = disk_area_of i
                  in bind_err (py_truediv tpm (2 * air_density i * da))
                       (\<lambda>q. let iv = np_sqrt (Fin q);
                                ppm = np_mul (Fin tpm) iv;
                                tp = np_mul ppm (Fin (real_of_int (num_rotors i)));
                                te = real_of_int (battery_capacity i) / 1000 * battery_voltage i * 3600;
                                en = np_div (np_div (Fin te) (np_mul tp (Fin 1.0))) (Fin 60);
                                pl = linspace 0.5 5.0 20;
                                (ev, tv) = sweep i pl ([], [])
                            in Inr (e\<lparr>endurance := Some en\<rparr>,
                                 \<lparr>total_weight = tw, thrust_per_motor = tpm, disk_area = da,
                                  induced_velocity = iv, power_per_motor = ppm, total_power = tp,
                                  total_energy = te, endurance_minutes = en, payloads = pl,
                                  endurance_vals = ev, throttle_vals = tv,
                                  mr_ui = [Metric ''Thrust per Motor'' [Fixed 1 (Fin tpm), Lit '' N''],
                                           Metric ''Total Hover Power''
                                             [Fixed 2 (np_div tp (Fin 1000)), Lit '' kW''],
                                           Metric ''Estimated Endurance''
                                             [Fixed 1 en, Lit '' min'']]\<rparr>))))"

section \<open>Export\<close>

text \<open>
  The list of (label, value) pairs of the report is built in full before the first line is
  drawn, its f-strings evaluated in order; the first unbound name raises. Each drawn line is
  \<^verbatim>\<open>f"{label}: {val}"\<close>. The superscripts of the two units are the UTF-8 bytes C2 B3 and
  C2 B2.
\<close>

definition report_line :: "string \<Rightarrow> rendered \<Rightarrow> rendered" where
  "report_line label val = [Lit label, Lit '': ''] @ val"

definition export_report :: "inputs \<Rightarrow> env \<Rightarrow> py_error + rendered list" where
  "export_report i e =
     bind_err (lookup_var ''stall_speed'' (stall_speed e))
       (\<lambda>v. bind_err (lookup_var ''endurance'' (endurance e))
          (\<lambda>en. bind_err (lookup_var ''endurance'' (endurance e))
             (\<lambda>en'. Inr (map (\<lambda>(label, val). report_line label val)
                [(''Air Density'', [Str (air_density i), Lit ('' kg/m'' @ [CHR 0xC2, CHR 0xB3])]),
                 (''Gravity'', [Str (gravity i), Lit ('' m/s'' @ [CHR 0xC2, CHR 0xB2])]),
                 (''Wing Area'', [Str (wing_area i), Lit ('' m'' @ [CHR 0xC2, CHR 0xB2])]),
                 (''Weight'', [Str (weight i), Lit '' kg'']),
                 (''Lift Coefficient'', [Str (cl i)]),
                 (''Stall Speed'', [Fixed 2 v, Lit '' m/s'']),
                 (''Thrust'', [Str (thrust i), Lit '' N'']),
                 (''Propeller Efficiency'', [Fixed 1 (Fin (prop_efficiency i * 100)), Lit ''%'']),
                 (''Fuel Mass'', [Str (fuel_mass i), Lit '' kg'']),
                 (''Estimated Endurance'', [Fixed 2 en, Lit '' hr'']),
                 (''Number of Rotors'', [StrInt (num_rotors i)]),
                 (''Rotor Diameter'', [Str (rotor_diameter i), Lit '' m'']),
                 (''Battery Capacity'', [StrInt (battery_capacity i), Lit '' mAh'']),
                 (''Battery Voltage'', [Str (battery_voltage i), Lit '' V'']),
                 (''Multirotor Endurance'', [Fixed 1 en', Lit '' min''])]))))"

section \<open>The script\<close>

record script_out =
  aero_tab :: aero_out
  prop_tab :: prop_out
  mr_tab :: mr_out
  report :: "rendered list option"

definition run_script :: "inputs \<Rightarrow> py_error + script_out" where
  "run_script i =
     bind_err (aerodynamics i env0)
       (\<lambda>(e1, a). bind_err (propulsion i e1)
          (\<lambda>(e2, p). bind_err (multirotor i e2)
             (\<lambda>(e3, m).
                if report_btn i then
                  bind_err (export_report i e3)
                    (\<lambda>ls. Inr \<lparr>aero_tab = a, prop_tab = p, mr_tab = m, report = Some ls\<rparr>)
                else Inr \<lparr>aero_tab = a, prop_tab = p, mr_tab = m, report = None\<rparr>)))"

section \<open>Reading results off a run\<close>

text \<open>
  What a tab, run on its own from the empty environment, leaves behind: the binding of
  \<open>stall_speed\<close> after the aerodynamics tab, and the outputs of the aerodynamics and
  multirotor tabs (\<open>None\<close> when the tab raised).
\<close>

definition aero_stall_speed :: "inputs \<Rightarrow> npfloat option" where
  "aero_stall_speed i = (case aerodynamics i env0 of Inl err \<Rightarrow> None | Inr (e, a) \<Rightarrow> stall_speed e)"

definition aero_result :: "inputs \<Rightarrow> aero_out option" where
  "aero_result i = (case aerodynamics i env0 of Inl err \<Rightarrow> None | Inr (e, a) \<Rightarrow> Some a)"

definition mr_result :: "inputs \<Rightarrow> mr_out option" where
  "mr_result i = (case multirotor i env0 of Inl err \<Rightarrow> None | Inr (e, m) \<Rightarrow> Some m)"

text \<open>
  The order of float64 values: \<^verbatim>\<open>nan\<close> compares false with everything. \<open>bound_le\<close> lifts
  it to names that may be unbound, and \<open>in_range\<close> says that a value is a finite number of
  the given interval.
\<close>

fun np_le :: "npfloat \<Rightarrow> npfloat \<Rightarrow> bool" where
  "np_le NaN y = False"
| "np_le x NaN = False"
| "np_le (Fin a) (Fin b) = (a \<le> b)"
| "np_le NInf y = True"
| "np_le x PInf = True"
| "np_le x y = False"

fun bound_le :: "npfloat option \<Rightarrow> npfloat option \<Rightarrow> bool" where
  "bound_le (Some x) (Some y) = np_le x y"
| "bound_le u v = False"

definition in_range :: "npfloat option \<Rightarrow> real \<Rightarrow> real \<Rightarrow> bool" where
  "in_range v lo hi = (bound_le (Some (Fin lo)) v \<and> bound_le v (Some (Fin hi)))"

text \<open>The lines of the exported report of a whole run, when there is one.\<close>

definition exported :: "inputs \<Rightarrow> rendered list option" where
  "exported i = (case run_script i of Inl err \<Rightarrow> None | Inr out \<Rightarrow> report out)"

text \<open>
  The data frame behind the chart of the aerodynamics tab: the (speed, power) points of the
  power-required curve.
\<close>

definition power_curve :: "inputs \<Rightarrow> (real \<times> real) list" where
  "power_curve i = (case aero_result i of None \<Rightarrow> [] | Some a \<Rightarrow> zip (speeds a) (power_required a))"

section \<open>Basic facts\<close>

lemma bind_err_Inl [simp]: "bind_err (Inl err) f = Inl err"
  by (simp add: bind_err_def)

lemma bind_err_Inr [simp]: "bind_err (Inr x) f = f x"
  by (simp add: bind_err_def)

lemma in_range_Fin [simp]: "in_range (Some (Fin a)) lo hi \<longleftrightarrow> lo \<le> a \<and> a \<le> hi"
  by (simp add: in_range_def)

lemma np_mul_one [simp]: "np_mul x (Fin 1) = x"
  by (cases x) (simp_all add: signed_inf_def)

lemma aerodynamics_valid:
  assumes "wing_area i > 0" "air_density i > 0" "cl i > 0"
  shows "\<exists>a. aerodynamics i e =
           Inr (e\<lparr>stall_speed := Some (np_sqrt (Fin (2 * weight i * gravity i /
                  (air_density i * wing_area i * cl i))))\<rparr>, a)"
  using assms by (simp add: aerodynamics_def py_truediv_def Let_def)

lemma aerodynamics_invalid:
  assumes "\<not> (wing_area i > 0 \<and> air_density i > 0 \<and> cl i > 0)"
  shows "\<exists>a. aerodynamics i e = Inr (e, a) \<and>
           aero_ui a = [Warning ''Enter valid values for Wing Area, Air Density and Cl'']"
  using assms by (auto simp add: aerodynamics_def Let_def)

lemma aero_stall_speed_valid:
  assumes "wing_area i > 0" "air_density i > 0" "cl i > 0"
  shows "aero_stall_speed i =
           Some (np_sqrt (Fin (2 * weight i * gravity i / (air_density i * wing_area i * cl i))))"
proof -
  from aerodynamics_valid [OF assms, of env0] obtain a where
    "aerodynamics i env0 = Inr (env0\<lparr>stall_speed := Some (np_sqrt (Fin (2 * weight i * gravity i /
        (air_density i * wing_area i * cl i))))\<rparr>, a)" ..
  then show ?thesis by (simp add: aero_stall_speed_def)
qed

lemma aero_stall_speed_defaults:
  "aero_stall_speed defaults = Some (Fin (sqrt (23544 / 23.52)))"
  by (simp add: aero_stall_speed_valid defaults_def)

lemma sqrt_stall_lower: "(31.635::real) \<le> sqrt (23544 / 23.52)"
  by (rule real_le_rsqrt) (simp add: power2_eq_square)

lemma sqrt_stall_upper: "sqrt (23544 / 23.52) \<le> (31.645::real)"
  by (rule real_le_lsqrt) (simp_all add: power2_eq_square)

section \<open>Stall speed\<close>

text \<open>
  C1, as amended. Inside the guard of the aerodynamics tab (wing area, air density and lift
  coefficient all positive) \<open>stall_speed\<close> is bound to
  \<open>np.sqrt((2 * weight * gravity) / (air_density * wing_area * cl))\<close>, which is the real
  square root when \<open>weight * gravity\<close> is not negative. At air density 1.225, gravity 9.81,
  wing area 16, weight 1200 and lift coefficient 1.2 the value is 31.64 m/s to two decimals
  (the square root of 23544 / 23.52), not 11.07.
\<close>

theorem C1_stall_speed_formula:
  "(wing_area i > 0 \<and> air_density i > 0 \<and> cl i > 0 \<longrightarrow>
      aero_stall_speed i =
        Some (np_sqrt (Fin (2 * weight i * gravity i / (air_density i * wing_area i * cl i))))) \<and>
   (wing_area i > 0 \<and> air_density i > 0 \<and> cl i > 0 \<and> 0 \<le> weight i * gravity i \<longrightarrow>
      aero_stall_speed i =
        Some (Fin (sqrt (2 * weight i * gravity i / (air_density i * wing_area i * cl i))))) \<and>
   in_range (aero_stall_speed defaults) 31.635 31.645"
proof (intro conjI impI)
  assume "wing_area i > 0 \<and> air_density i > 0 \<and> cl i > 0"
  then show "aero_stall_speed i =
      Some (np_sqrt (Fin (2 * weight i * gravity i / (air_density i * wing_area i * cl i))))"
    by (simp add: aero_stall_speed_valid)
next
  assume a: "wing_area i > 0 \<and> air_density i > 0 \<and> cl i > 0 \<and> 0 \<le> weight i * gravity i"
  then have "0 \<le> 2 * weight i * gravity i / (air_density i * wing_area i * cl i)"
    by (simp add: mult.assoc)
  with a show "aero_stall_speed i =
      Some (Fin (sqrt (2 * weight i * gravity i / (air_density i * wing_area i * cl i))))"
    by (simp add: aero_stall_speed_valid not_less)
next
  show "in_range (aero_stall_speed defaults) 31.635 31.645"
    using sqrt_stall_lower sqrt_stall_upper by (simp add: aero_stall_speed_defaults)
qed

theorem C1_stall_speed_formula_witness:
  "wing_area defaults > 0 \<and> air_density defaults > 0 \<and> cl defaults > 0 \<and>
   0 \<le> weight defaults * gravity defaults \<and>
   aero_stall_speed defaults =
     Some (Fin (sqrt (2 * weight defaults * gravity defaults /
       (air_density defaults * wing_area defaults * cl defaults))))"
  using C1_stall_speed_formula [of defaults] by (simp add: defaults_def)

theorem C1_counterexample:
  "\<not> in_range (aero_stall_speed defaults) 11.065 11.075"
  using sqrt_stall_lower by (simp add: aero_stall_speed_defaults)

section \<open>How each tab ends\<close>



lemma aerodynamics_env:
  "\<exists>a. aerodynamics i e = Inr (if wing_area i > 0 \<and> air_density i > 0 \<and> cl i > 0
       then e\<lparr>stall_speed := Some (np_sqrt (Fin (2 * weight i * gravity i /
                  (air_density i * wing_area i * cl i))))\<rparr> else e, a)"
  using aerodynamics_valid [of i e] aerodynamics_invalid [of i e] by (cases "wing_area i > 0 \<and> air_density i > 0 \<and> cl i > 0") auto

lemma propulsion_unbound:
  assumes "stall_speed e = None"
  shows "propulsion i e = (if prop_efficiency i > 0 then Inl (NameError ''stall_speed'')
           else Inr (e, \<lparr>power_available = None, prop_ui = []\<rparr>))"
  using assms by (simp add: propulsion_def lookup_var_def)

lemma propulsion_bound:
  assumes "stall_speed e = Some v"
  shows "\<exists>e' p. propulsion i e = Inr (e', p) \<and> stall_speed e' = Some v"
  using assms by (simp add: propulsion_def lookup_var_def Let_def)

lemma multirotor_raises:
  assumes "num_rotors i = 0 \<or> 2 * air_density i * disk_area_of i = 0"
  shows "multirotor i e = Inl ZeroDivisionError"
  using assms by (auto simp add: multirotor_def py_truediv_def Let_def)

lemma sweep_append:
  "sweep i ps (ev, tv) = (ev @ map (sweep_endurance i) ps, tv @ map (sweep_throttle i) ps)"
  by (induction ps arbitrary: ev tv) simp_all

lemma multirotor_returns:
  assumes "num_rotors i \<noteq> 0" "2 * air_density i * disk_area_of i \<noteq> 0"
  shows "\<exists>m. multirotor i e = Inr (e\<lparr>endurance := Some (endurance_minutes m)\<rparr>, m) \<and>
    total_weight m = (payload i + frame_weight i) * gravity i \<and>
    thrust_per_motor m = total_weight m / real_of_int (num_rotors i) \<and>
    disk_area m = pi * (rotor_diameter i / 2)\<^sup>2 \<and>
    induced_velocity m = np_sqrt (Fin (thrust_per_motor m / (2 * air_density i * disk_area m))) \<and>
    power_per_motor m = np_mul (Fin (thrust_per_motor m)) (induced_velocity m) \<and>
    total_power m = np_mul (power_per_motor m) (Fin (real_of_int (num_rotors i))) \<and>
    total_energy m = real_of_int (battery_capacity i) / 1000 * battery_voltage i * 3600 \<and>
    endurance_minutes m = np_div (np_div (Fin (total_energy m)) (total_power m)) (Fin 60) \<and>
    payloads m = linspace 0.5 5.0 20 \<and>
    endurance_vals m = map (sweep_endurance i) (payloads m) \<and>
    throttle_vals m = map (sweep_throttle i) (payloads m)"
  using assms
  by (simp add: multirotor_def py_truediv_def Let_def sweep_append disk_area_of_def)


lemma export_report_unbound:
  assumes "stall_speed e = None"
  shows "export_report i e = Inl (NameError ''stall_speed'')"
  using assms by (simp add: export_report_def lookup_var_def)

lemma run_script_invalid:
  assumes "\<not> (wing_area i > 0 \<and> air_density i > 0 \<and> cl i > 0)"
  shows "run_script i =
    (if prop_efficiency i > 0 then Inl (NameError ''stall_speed'')
     else if num_rotors i = 0 \<or> 2 * air_density i * disk_area_of i = 0 then Inl ZeroDivisionError
     else if report_btn i then Inl (NameError ''stall_speed'')
     else Inr \<lparr>aero_tab = the (aero_result i), prop_tab = \<lparr>power_available = None, prop_ui = []\<rparr>,
            mr_tab = the (mr_result i), report = None\<rparr>)"
proof -
  from aerodynamics_invalid [OF assms, of env0] obtain a where
    a: "aerodynamics i env0 = Inr (env0, a)" by blast
  have ar: "aero_result i = Some a" by (simp add: aero_result_def a)
  have u: "stall_speed env0 = None" by (simp add: env0_def)
  show ?thesis
  proof (cases "prop_efficiency i > 0")
    case True
    then show ?thesis by (simp add: run_script_def a propulsion_unbound [OF u])
  next
    case False
    note pe = this
    show ?thesis
    proof (cases "num_rotors i = 0 \<or> 2 * air_density i * disk_area_of i = 0")
      case True
      then show ?thesis
        using pe by (simp add: run_script_def a propulsion_unbound [OF u] multirotor_raises)
    next
      case False
      then obtain m where m: "multirotor i env0 = Inr (env0\<lparr>endurance := Some (endurance_minutes m)\<rparr>, m)"
        using multirotor_returns [of i env0] by blast
      have mr: "mr_result i = Some m" by (simp add: mr_result_def m)
      have u': "stall_speed (env0\<lparr>endurance := Some (endurance_minutes m)\<rparr>) = None"
        by (simp add: env0_def)
      show ?thesis
        using pe False
        by (simp add: run_script_def a propulsion_unbound [OF u] m export_report_unbound [OF u'] ar mr)
    qed
  qed
qed

section \<open>Invalid inputs\<close>

text \<open>
  C2. When the guard of the aerodynamics tab fails (wing area, air density or lift
  coefficient zero or negative), the stall-speed computation itself raises nothing: it shows
  the warning and leaves \<open>stall_speed\<close> unbound. The propulsion tab does not report its
  results as unavailable then: with a propeller efficiency above zero it reads the unbound
  name, and the whole run ends in \<open>NameError\<close>.
\<close>

theorem C2_unbound_stall_speed:
  assumes "\<not> (wing_area i > 0 \<and> air_density i > 0 \<and> cl i > 0)"
  shows "aero_stall_speed i = None \<and>
    (\<exists>a. aero_result i = Some a \<and>
       aero_ui a = [Warning ''Enter valid values for Wing Area, Air Density and Cl'']) \<and>
    (0 < prop_slider i \<longrightarrow> propulsion i \<lparr>stall_speed = aero_stall_speed i, endurance = None\<rparr>
        = Inl (NameError ''stall_speed'')) \<and>
    (0 < prop_slider i \<longrightarrow> run_script i = Inl (NameError ''stall_speed''))"
proof -
  from aerodynamics_invalid [OF assms, of env0] obtain a where
    a: "aerodynamics i env0 = Inr (env0, a)"
      "aero_ui a = [Warning ''Enter valid values for Wing Area, Air Density and Cl'']" by blast
  have s: "aero_stall_speed i = None" by (simp add: aero_stall_speed_def a) (simp add: env0_def)
  have r: "aero_result i = Some a" by (simp add: aero_result_def a)
  have p: "0 < prop_slider i \<Longrightarrow> prop_efficiency i > 0" by (simp add: prop_efficiency_def)
  show ?thesis
    using s r a(2) p by (simp add: run_script_invalid [OF assms] propulsion_unbound)
qed

theorem C2_unbound_stall_speed_witness:
  "aero_stall_speed (defaults\<lparr>wing_area := 0\<rparr>) = None \<and>
   run_script (defaults\<lparr>wing_area := 0\<rparr>) = Inl (NameError ''stall_speed'')"
  using C2_unbound_stall_speed [of "defaults\<lparr>wing_area := 0\<rparr>"] by (simp add: defaults_def)

text \<open>
  C5. Export with no stall speed computed has no "no results" condition of its own: building
  the report reads the unbound name \<open>stall_speed\<close> and raises \<open>NameError\<close>; a run that
  reaches the export with the button pressed ends in that error (or has ended before, in
  the multirotor tab's \<open>ZeroDivisionError\<close>). No document is produced.
\<close>

theorem C5_export_without_stall_speed:
  "(stall_speed e = None \<longrightarrow> export_report i e = Inl (NameError ''stall_speed'')) \<and>
   (aero_stall_speed i = None \<and> report_btn i \<longrightarrow>
      run_script i = Inl (NameError ''stall_speed'') \<or> run_script i = Inl ZeroDivisionError) \<and>
   (aero_stall_speed i = None \<and> report_btn i \<and> num_rotors i \<noteq> 0 \<and>
      2 * air_density i * disk_area_of i \<noteq> 0 \<longrightarrow> run_script i = Inl (NameError ''stall_speed''))"
proof (intro conjI impI)
  assume "stall_speed e = None"
  then show "export_report i e = Inl (NameError ''stall_speed'')" by (rule export_report_unbound)
next
  assume h: "aero_stall_speed i = None \<and> report_btn i"
  have "\<not> (wing_area i > 0 \<and> air_density i > 0 \<and> cl i > 0)"
    using h aero_stall_speed_valid [of i] by auto
  from run_script_invalid [OF this] h
  show "run_script i = Inl (NameError ''stall_speed'') \<or> run_script i = Inl ZeroDivisionError"
    by (simp split: if_splits)
next
  assume h: "aero_stall_speed i = None \<and> report_btn i \<and> num_rotors i \<noteq> 0 \<and>
      2 * air_density i * disk_area_of i \<noteq> 0"
  have "\<not> (wing_area i > 0 \<and> air_density i > 0 \<and> cl i > 0)"
    using h aero_stall_speed_valid [of i] by auto
  from run_script_invalid [OF this] h
  show "run_script i = Inl (NameError ''stall_speed'')"
    by (simp split: if_splits)
qed

lemma disk_area_defaults_pos: "0 < disk_area_of (defaults\<lparr>wing_area := 0, prop_slider := 0, report_btn := b\<rparr>)"
  by (simp add: disk_area_of_def defaults_def)

theorem C5_export_without_stall_speed_witness:
  "aero_stall_speed (defaults\<lparr>wing_area := 0, prop_slider := 0, report_btn := True\<rparr>) = None \<and>
   run_script (defaults\<lparr>wing_area := 0, prop_slider := 0, report_btn := True\<rparr>) = Inl (NameError ''stall_speed'') \<and>
   \<not> isl (run_script (defaults\<lparr>wing_area := 0, prop_slider := 0, report_btn := False\<rparr>))"
proof -
  let ?i = "\<lambda>b. defaults\<lparr>wing_area := 0, prop_slider := 0, report_btn := b\<rparr>"
  have g: "\<not> (wing_area (?i b) > 0 \<and> air_density (?i b) > 0 \<and> cl (?i b) > 0)" for b
    by (simp add: defaults_def)
  have s: "aero_stall_speed (?i b) = None" for b
  proof -
    from aerodynamics_invalid [OF g, of b env0] obtain a where
      "aerodynamics (?i b) env0 = Inr (env0, a)" by blast
    then show ?thesis by (simp add: aero_stall_speed_def) (simp add: env0_def)
  qed
  have d: "2 * air_density (?i b) * disk_area_of (?i b) \<noteq> 0" for b
    using disk_area_defaults_pos [of b] by (simp add: defaults_def)
  have n: "num_rotors (?i b) \<noteq> 0" "\<not> prop_efficiency (?i b) > 0" for b
    by (simp_all add: defaults_def prop_efficiency_def)
  have "run_script (?i True) = Inl (NameError ''stall_speed'')"
    using C5_export_without_stall_speed [of env0 "?i True"] s [of True] d [of True] n(1) [of True]
    by simp
  moreover have "\<not> isl (run_script (?i False))"
    using d [of False] n [of False] by (simp add: run_script_invalid [OF g])
  ultimately show ?thesis using s by simp
qed

lemma run_script_multirotor_raises:
  assumes "num_rotors i = 0 \<or> 2 * air_density i * disk_area_of i = 0"
    and "(wing_area i > 0 \<and> air_density i > 0 \<and> cl i > 0) \<or> \<not> prop_efficiency i > 0"
  shows "run_script i = Inl ZeroDivisionError"
proof -
  obtain e1 a where a: "aerodynamics i env0 = Inr (e1, a)"
    and e1: "(wing_area i > 0 \<and> air_density i > 0 \<and> cl i > 0) \<longrightarrow> stall_speed e1 \<noteq> None"
    using aerodynamics_env [of i env0] by (auto split: if_splits)
  have "\<exists>e2 p. propulsion i e1 = Inr (e2, p)"
  proof (cases "stall_speed e1")
    case None
    with e1 assms(2) show ?thesis by (auto simp add: propulsion_unbound)
  next
    case (Some v)
    then show ?thesis using propulsion_bound [of e1 v i] by blast
  qed
  then obtain e2 p where p: "propulsion i e1 = Inr (e2, p)" by blast
  show ?thesis
    by (simp add: run_script_def a p multirotor_raises [OF assms(1)])
qed

text \<open>
  C4. The multirotor tab has no guard on the disk area. With a rotor diameter or an air
  density of zero the division under the square root raises \<open>ZeroDivisionError\<close>; with a
  negative air density (and a positive thrust per motor) the induced velocity, the power per
  motor, the total power and the endurance are all \<open>nan\<close>.
\<close>

theorem C4_no_disk_area_guard:
  "(rotor_diameter i = 0 \<or> air_density i = 0 \<longrightarrow> multirotor i e = Inl ZeroDivisionError) \<and>
   (num_rotors i \<noteq> 0 \<and> air_density i < 0 \<and> rotor_diameter i \<noteq> 0 \<and>
    0 < (payload i + frame_weight i) * gravity i / real_of_int (num_rotors i) \<longrightarrow>
      (\<exists>m. mr_result i = Some m \<and> induced_velocity m = NaN \<and> power_per_motor m = NaN \<and>
           total_power m = NaN \<and> endurance_minutes m = NaN))"
proof (intro conjI impI)
  assume "rotor_diameter i = 0 \<or> air_density i = 0"
  then have "num_rotors i = 0 \<or> 2 * air_density i * disk_area_of i = 0"
    by (auto simp add: disk_area_of_def)
  then show "multirotor i e = Inl ZeroDivisionError" by (rule multirotor_raises)
next
  assume h: "num_rotors i \<noteq> 0 \<and> air_density i < 0 \<and> rotor_diameter i \<noteq> 0 \<and>
    0 < (payload i + frame_weight i) * gravity i / real_of_int (num_rotors i)"
  have da: "0 < disk_area_of i" using h by (simp add: disk_area_of_def)
  then have d: "2 * air_density i * disk_area_of i < 0"
    using h by (simp add: mult_neg_pos)
  then have nz: "2 * air_density i * disk_area_of i \<noteq> 0" by (rule less_imp_neq)
  from multirotor_returns [of i env0, OF _ nz] h obtain m where
    m: "multirotor i env0 = Inr (env0\<lparr>endurance := Some (endurance_minutes m)\<rparr>, m)"
      "total_weight m = (payload i + frame_weight i) * gravity i"
      "thrust_per_motor m = total_weight m / real_of_int (num_rotors i)"
      "disk_area m = pi * (rotor_diameter i / 2)\<^sup>2"
      "induced_velocity m = np_sqrt (Fin (thrust_per_motor m / (2 * air_density i * disk_area m)))"
      "power_per_motor m = np_mul (Fin (thrust_per_motor m)) (induced_velocity m)"
      "total_power m = np_mul (power_per_motor m) (Fin (real_of_int (num_rotors i)))"
      "endurance_minutes m = np_div (np_div (Fin (total_energy m)) (total_power m)) (Fin 60)"
    by blast
  have T: "0 < thrust_per_motor m" using h by (simp add: m(2,3))
  have D: "2 * air_density i * disk_area m < 0" using d by (simp add: m(4) disk_area_of_def)
  from T D have "thrust_per_motor m / (2 * air_density i * disk_area m) < 0"
    by (rule divide_pos_neg)
  then have iv: "induced_velocity m = NaN" by (simp add: m(5))
  have "mr_result i = Some m" by (simp add: mr_result_def m(1))
  then show "\<exists>m. mr_result i = Some m \<and> induced_velocity m = NaN \<and> power_per_motor m = NaN \<and>
           total_power m = NaN \<and> endurance_minutes m = NaN"
    using iv by (simp add: m(6,7,8))
qed

theorem C4_no_disk_area_guard_witness:
  "multirotor (defaults\<lparr>rotor_diameter := 0\<rparr>) env0 = Inl ZeroDivisionError \<and>
   run_script (defaults\<lparr>rotor_diameter := 0\<rparr>) = Inl ZeroDivisionError \<and>
   (\<exists>m. mr_result (defaults\<lparr>air_density := - 1\<rparr>) = Some m \<and> induced_velocity m = NaN \<and>
        total_power m = NaN \<and> endurance_minutes m = NaN)"
proof -
  have "run_script (defaults\<lparr>rotor_diameter := 0\<rparr>) = Inl ZeroDivisionError"
    by (rule run_script_multirotor_raises) (simp_all add: defaults_def disk_area_of_def)
  moreover have "multirotor (defaults\<lparr>rotor_diameter := 0\<rparr>) env0 = Inl ZeroDivisionError"
    using C4_no_disk_area_guard [of "defaults\<lparr>rotor_diameter := 0\<rparr>" env0]
    by (simp add: defaults_def)
  moreover have "\<exists>m. mr_result (defaults\<lparr>air_density := - 1\<rparr>) = Some m \<and>
      induced_velocity m = NaN \<and> total_power m = NaN \<and> endurance_minutes m = NaN"
    using C4_no_disk_area_guard [of "defaults\<lparr>air_density := - 1\<rparr>" env0]
    by (auto simp add: defaults_def)
  ultimately show ?thesis by simp
qed


section \<open>The exported report\<close>

lemma export_report_bound:
  assumes "export_report i e = Inr ls"
  shows "\<exists>v en. stall_speed e = Some v \<and> endurance e = Some en \<and> length ls = 15 \<and>
     ls ! 5 = report_line ''Stall Speed'' [Fixed 2 v, Lit '' m/s''] \<and>
     ls ! 9 = report_line ''Estimated Endurance'' [Fixed 2 en, Lit '' hr''] \<and>
     ls ! 14 = report_line ''Multirotor Endurance'' [Fixed 1 en, Lit '' min'']"
proof (cases "stall_speed e")
  case None
  with assms show ?thesis by (simp add: export_report_def lookup_var_def)
next
  case (Some v)
  note v = this
  show ?thesis
  proof (cases "endurance e")
    case None
    with assms v show ?thesis by (simp add: export_report_def lookup_var_def)
  next
    case (Some en)
    with assms v show ?thesis by (auto simp add: export_report_def lookup_var_def)
  qed
qed

lemma multirotor_output_env:
  assumes "multirotor i e = Inr (e', m)"
  shows "e' = e\<lparr>endurance := Some (endurance_minutes m)\<rparr> \<and> mr_result i = Some m"
proof -
  have nz: "num_rotors i \<noteq> 0" "2 * air_density i * disk_area_of i \<noteq> 0"
    using assms multirotor_raises [of i e] by auto
  from assms nz show ?thesis
    by (auto simp add: multirotor_def mr_result_def py_truediv_def Let_def split: prod.splits)
qed

lemma propulsion_keeps_stall_speed:
  assumes "propulsion i e = Inr (e', p)"
  shows "stall_speed e' = stall_speed e"
  using assms
  by (auto simp add: propulsion_def lookup_var_def Let_def split: if_splits option.splits)

lemma aerodynamics_stall_speed:
  assumes "aerodynamics i env0 = Inr (e, a)"
  shows "stall_speed e = aero_stall_speed i"
  using assms by (simp add: aero_stall_speed_def)

lemma run_script_report:
  assumes "run_script i = Inr out" "report out = Some ls"
  shows "\<exists>m. mr_result i = Some m \<and>
    export_report i \<lparr>stall_speed = aero_stall_speed i, endurance = Some (endurance_minutes m)\<rparr> = Inr ls"
proof -
  obtain e1 a where a: "aerodynamics i env0 = Inr (e1, a)"
    using aerodynamics_env [of i env0] by blast
  obtain e2 p where p: "propulsion i e1 = Inr (e2, p)"
    using assms(1) by (cases "propulsion i e1") (auto simp add: run_script_def a)
  obtain e3 m where m: "multirotor i e2 = Inr (e3, m)"
    using assms(1) by (cases "multirotor i e2") (auto simp add: run_script_def a p)
  from multirotor_output_env [OF m] have e3: "e3 = e2\<lparr>endurance := Some (endurance_minutes m)\<rparr>"
    and mr: "mr_result i = Some m" by simp_all
  have s: "stall_speed e2 = aero_stall_speed i"
    using propulsion_keeps_stall_speed [OF p] aerodynamics_stall_speed [OF a] by simp
  have e3': "e3 = \<lparr>stall_speed = aero_stall_speed i, endurance = Some (endurance_minutes m)\<rparr>"
    using s by (simp add: e3)
  have "export_report i e3 = Inr ls"
    using assms by (cases "export_report i e3") (auto simp add: run_script_def a p m split: if_splits)
  with e3' mr show ?thesis by simp
qed

lemma export_report_returns:
  assumes "stall_speed e = Some v" "endurance e = Some en"
  shows "\<exists>ls. export_report i e = Inr ls"
  using assms by (simp add: export_report_def lookup_var_def)

lemma exported_eq:
  "exported i =
    (if report_btn i \<and> (wing_area i > 0 \<and> air_density i > 0 \<and> cl i > 0) \<and>
        num_rotors i \<noteq> 0 \<and> 2 * air_density i * disk_area_of i \<noteq> 0
     then (case export_report i \<lparr>stall_speed = aero_stall_speed i,
                 endurance = Some (endurance_minutes (the (mr_result i)))\<rparr> of
             Inl err \<Rightarrow> None | Inr ls \<Rightarrow> Some ls)
     else None)"
proof (cases "wing_area i > 0 \<and> air_density i > 0 \<and> cl i > 0")
  case False
  show ?thesis using False by (auto simp add: exported_def run_script_invalid [OF False])
next
  case True
  note g = this
  show ?thesis
  proof (cases "num_rotors i = 0 \<or> 2 * air_density i * disk_area_of i = 0")
    case True
    with g show ?thesis by (auto simp add: exported_def run_script_multirotor_raises)
  next
    case False
    obtain e1 a where a: "aerodynamics i env0 = Inr (e1, a)"
      using aerodynamics_env [of i env0] by blast
    obtain v where v: "aero_stall_speed i = Some v"
      using g by (simp add: aero_stall_speed_valid)
    then have s1: "stall_speed e1 = Some v" using aerodynamics_stall_speed [OF a] by simp
    obtain e2 p where p: "propulsion i e1 = Inr (e2, p)" and "stall_speed e2 = Some v"
      using propulsion_bound [OF s1, of i] by blast
    then have s2: "stall_speed e2 = aero_stall_speed i" using v by simp
    obtain m where m: "multirotor i e2 = Inr (e2\<lparr>endurance := Some (endurance_minutes m)\<rparr>, m)"
      using multirotor_returns [of i e2] False by blast
    from multirotor_output_env [OF m] have mr: "mr_result i = Some m" by simp
    have e3: "e2\<lparr>endurance := Some (endurance_minutes m)\<rparr> =
        \<lparr>stall_speed = aero_stall_speed i, endurance = Some (endurance_minutes m)\<rparr>"
      using s2 by simp
    show ?thesis
      using g False
      by (simp add: exported_def run_script_def a p m mr e3 split: sum.splits)
  qed
qed

lemma aero_stall_speed_fuel [simp]:
  "aero_stall_speed (i\<lparr>fuel_energy_density := x\<rparr>) = aero_stall_speed i"
  by (simp add: aero_stall_speed_def aerodynamics_def)

lemma sweep_endurance_fuel [simp]:
  "sweep_endurance (i\<lparr>fuel_energy_density := x\<rparr>) = sweep_endurance i"
  by (rule ext) (simp add: sweep_endurance_def disk_area_of_def)

lemma sweep_throttle_fuel [simp]:
  "sweep_throttle (i\<lparr>fuel_energy_density := x\<rparr>) = sweep_throttle i"
  by (rule ext) (simp add: sweep_throttle_def)

lemma multirotor_fuel [simp]:
  "multirotor (i\<lparr>fuel_energy_density := x\<rparr>) e = multirotor i e"
  by (simp add: multirotor_def sweep_append disk_area_of_def)

lemma mr_result_fuel [simp]:
  "mr_result (i\<lparr>fuel_energy_density := x\<rparr>) = mr_result i"
  by (simp add: mr_result_def)

lemma export_report_fuel [simp]:
  "export_report (i\<lparr>fuel_energy_density := x\<rparr>) e = export_report i e"
  by (simp add: export_report_def prop_efficiency_def)

lemma exported_fuel: "exported (i\<lparr>fuel_energy_density := x\<rparr>) = exported i"
  by (simp add: exported_eq disk_area_of_def)

text \<open>
  C6. Whenever a run exports a report, the multirotor tab has bound \<open>endurance\<close> again (to
  its endurance in minutes) before the report is built: the report is the one built from the
  stall speed and that value, its line "Estimated Endurance" (two decimals, "hr") and its
  line "Multirotor Endurance" (one decimal, "min") both format it, and the report does not
  change with the fuel energy density, which only the propulsion endurance depends on.
\<close>

theorem C6_report_endurance:
  assumes "exported i = Some ls"
  shows "\<exists>m en. mr_result i = Some m \<and> en = endurance_minutes m \<and>
    export_report i \<lparr>stall_speed = aero_stall_speed i, endurance = Some en\<rparr> = Inr ls \<and>
    length ls = 15 \<and>
    ls ! 9 = report_line ''Estimated Endurance'' [Fixed 2 en, Lit '' hr''] \<and>
    ls ! 14 = report_line ''Multirotor Endurance'' [Fixed 1 en, Lit '' min''] \<and>
    exported (i\<lparr>fuel_energy_density := x\<rparr>) = Some ls"
proof -
  from assms obtain out where out: "run_script i = Inr out" "report out = Some ls"
    by (auto simp add: exported_def split: sum.splits)
  from run_script_report [OF out] obtain m where m: "mr_result i = Some m"
    "export_report i \<lparr>stall_speed = aero_stall_speed i, endurance = Some (endurance_minutes m)\<rparr> = Inr ls"
    by blast
  from export_report_bound [OF m(2)] have
    "length ls = 15 \<and>
     ls ! 9 = report_line ''Estimated Endurance'' [Fixed 2 (endurance_minutes m), Lit '' hr''] \<and>
     ls ! 14 = report_line ''Multirotor Endurance'' [Fixed 1 (endurance_minutes m), Lit '' min'']"
    by auto
  with m assms show ?thesis by (simp add: exported_fuel)
qed

theorem C6_report_endurance_witness:
  "\<exists>ls m. exported (defaults\<lparr>report_btn := True\<rparr>) = Some ls \<and>
     mr_result (defaults\<lparr>report_btn := True\<rparr>) = Some m \<and>
     ls ! 9 = report_line ''Estimated Endurance'' [Fixed 2 (endurance_minutes m), Lit '' hr''] \<and>
     ls ! 14 = report_line ''Multirotor Endurance'' [Fixed 1 (endurance_minutes m), Lit '' min'']"
proof -
  let ?i = "defaults\<lparr>report_btn := True\<rparr>"
  have g: "wing_area ?i > 0 \<and> air_density ?i > 0 \<and> cl ?i > 0" "report_btn ?i" "num_rotors ?i \<noteq> 0"
    "2 * air_density ?i * disk_area_of ?i \<noteq> 0"
    by (simp_all add: defaults_def disk_area_of_def)
  obtain v where v: "aero_stall_speed ?i = Some v" using g(1) by (simp add: aero_stall_speed_valid)
  obtain ls where "export_report ?i \<lparr>stall_speed = aero_stall_speed ?i,
      endurance = Some (endurance_minutes (the (mr_result ?i)))\<rparr> = Inr ls"
    using export_report_returns [of _ v] v by fastforce
  then have "exported ?i = Some ls" using g by (simp add: exported_eq)
  from C6_report_endurance [OF this] show ?thesis using \<open>exported ?i = Some ls\<close> by blast
qed


section \<open>Evenly spaced samples\<close>

lemma length_linspace [simp]: "length (linspace a b n) = n"
  by (simp add: linspace_def Let_def)

lemma linspace_nth:
  assumes "1 < n" "k < n"
  shows "linspace a b n ! k = a + real k * ((b - a) / real (n - 1))"
proof (cases "k = n - 1")
  case True
  have "real (n - 1) \<noteq> 0" using assms by simp
  then have "a + real (n - 1) * ((b - a) / real (n - 1)) = b" by simp
  with True assms show ?thesis by (simp add: linspace_def Let_def)
next
  case False
  with assms show ?thesis by (simp add: linspace_def Let_def add.commute)
qed

lemma linspace_first: "1 < n \<Longrightarrow> linspace a b n ! 0 = a"
  by (simp add: linspace_nth)

lemma linspace_last: "1 < n \<Longrightarrow> linspace a b n ! (n - 1) = b"
  by (simp add: linspace_def Let_def)

lemma linspace_strict_mono:
  assumes "1 < n" "a < b" "j < k" "k < n"
  shows "linspace a b n ! j < linspace a b n ! k"
proof -
  have "0 < (b - a) / real (n - 1)" using assms by simp
  moreover have "real j < real k" using assms by simp
  ultimately have "real j * ((b - a) / real (n - 1)) < real k * ((b - a) / real (n - 1))"
    by (rule mult_strict_right_mono [rotated])
  then show ?thesis using assms by (simp add: linspace_nth)
qed

lemma linspace_lower:
  assumes "1 < n" "a \<le> b" "k < n"
  shows "a \<le> linspace a b n ! k"
proof -
  have "0 \<le> real k * ((b - a) / real (n - 1))" using assms by simp
  then show ?thesis using assms by (simp add: linspace_nth)
qed

section \<open>The power-required curve\<close>

lemma power_curve_eq:
  "power_curve i = map (\<lambda>s. (s, 0.5 * air_density i * s\<^sup>2 * wing_area i * drag_coeff * s / 1000))
     (linspace 20 100 30)"
proof -
  obtain e a where a: "aerodynamics i env0 = Inr (e, a)"
    using aerodynamics_env [of i env0] by blast
  have sp: "speeds a = linspace 20 100 30"
    and pw: "power_required a = map (\<lambda>(d, s). d * s / 1000)
      (zip (map (\<lambda>s. 0.5 * air_density i * s\<^sup>2 * wing_area i * drag_coeff) (linspace 20 100 30))
           (linspace 20 100 30))"
    using a by (auto simp add: aerodynamics_def Let_def bind_err_def split: sum.splits prod.splits)
  have "power_curve i = zip (speeds a) (power_required a)"
    by (simp add: power_curve_def aero_result_def a)
  also have "\<dots> = map (\<lambda>s. (s, 0.5 * air_density i * s\<^sup>2 * wing_area i * drag_coeff * s / 1000))
     (linspace 20 100 30)"
    unfolding sp pw by (rule nth_equalityI) simp_all
  finally show ?thesis .
qed

lemma power_cube:
  "0.5 * r * s\<^sup>2 * A * drag_coeff * s / 1000 = (r * A) * (3 / 200000) * s ^ 3" for r s A :: real
  by (simp add: drag_coeff_def power2_eq_square power3_eq_cube)

lemma power_curve_nth:
  assumes "k < 30"
  shows "power_curve i ! k =
    (linspace 20 100 30 ! k,
     0.5 * air_density i * (linspace 20 100 30 ! k)\<^sup>2 * wing_area i * drag_coeff *
       (linspace 20 100 30 ! k) / 1000)"
  using assms by (simp add: power_curve_eq)

text \<open>
  C7, as amended. Whatever the inputs, the power-required curve has exactly 30 points, its
  speeds are \<open>20 + k * (80 / 29)\<close> for \<open>k\<close> from 0 to 29, from 20 to 100 inclusive, and the
  power of a point is \<open>0.5 * air_density * speed\<^sup>2 * wing_area * 0.03 * speed / 1000\<close>. The
  powers are non-negative when \<open>air_density * wing_area\<close> is not negative, and strictly
  increasing with the speed when \<open>air_density * wing_area\<close> is positive; both inputs may be
  zero or negative, and then the curve is flat or falling.
\<close>

theorem C7_power_curve:
  "length (power_curve i) = 30 \<and>
   fst (power_curve i ! 0) = 20 \<and> fst (power_curve i ! 29) = 100 \<and>
   (\<forall>k<30. fst (power_curve i ! k) = 20 + real k * (80 / 29)) \<and>
   (\<forall>k<30. snd (power_curve i ! k) =
      0.5 * air_density i * (fst (power_curve i ! k))\<^sup>2 * wing_area i * 0.03 *
        fst (power_curve i ! k) / 1000) \<and>
   (0 \<le> air_density i * wing_area i \<longrightarrow> (\<forall>k<30. 0 \<le> snd (power_curve i ! k))) \<and>
   (0 < air_density i * wing_area i \<longrightarrow>
      (\<forall>j k. j < k \<and> k < 30 \<longrightarrow> snd (power_curve i ! j) < snd (power_curve i ! k)))"
proof (intro conjI allI impI)
  show "length (power_curve i) = 30" by (simp add: power_curve_eq)
next
  show "fst (power_curve i ! 0) = 20" by (simp add: power_curve_nth linspace_first)
next
  show "fst (power_curve i ! 29) = 100"
    using linspace_last [of 30 20 100] by (simp add: power_curve_nth)
next
  fix k :: nat assume "k < 30"
  then show "fst (power_curve i ! k) = 20 + real k * (80 / 29)"
    by (simp add: power_curve_nth linspace_nth)
next
  fix k :: nat assume "k < 30"
  then show "snd (power_curve i ! k) =
      0.5 * air_density i * (fst (power_curve i ! k))\<^sup>2 * wing_area i * 0.03 *
        fst (power_curve i ! k) / 1000"
    by (simp add: power_curve_nth drag_coeff_def)
next
  fix k :: nat assume nn: "0 \<le> air_density i * wing_area i" and k: "k < 30"
  have "(20::real) \<le> linspace 20 100 30 ! k" using k by (intro linspace_lower) simp_all
  then have "0 \<le> (linspace 20 100 30 ! k) ^ 3" by simp
  with nn have "0 \<le> (air_density i * wing_area i) * (3 / 200000) * (linspace 20 100 30 ! k) ^ 3"
    by simp
  then show "0 \<le> snd (power_curve i ! k)"
    using k by (simp only: power_curve_nth snd_conv power_cube)
next
  fix j k :: nat assume pos: "0 < air_density i * wing_area i" and jk: "j < k \<and> k < 30"
  then have j: "j < 30" by simp
  have lo: "(20::real) \<le> linspace 20 100 30 ! j" using j by (intro linspace_lower) simp_all
  have lt: "linspace 20 100 30 ! j < linspace 20 100 30 ! k"
    using jk by (intro linspace_strict_mono) simp_all
  from lo lt have "(linspace 20 100 30 ! j) ^ 3 < (linspace 20 100 30 ! k) ^ 3"
    by (intro power_strict_mono) simp_all
  moreover have "0 < (air_density i * wing_area i) * (3 / 200000)" using pos by simp
  ultimately have "(air_density i * wing_area i) * (3 / 200000) * (linspace 20 100 30 ! j) ^ 3
      < (air_density i * wing_area i) * (3 / 200000) * (linspace 20 100 30 ! k) ^ 3"
    by (rule mult_strict_left_mono)
  then show "snd (power_curve i ! j) < snd (power_curve i ! k)"
    using jk j by (simp only: power_curve_nth snd_conv power_cube)
qed

theorem C7_power_curve_witness:
  "0 < air_density defaults * wing_area defaults \<and>
   length (power_curve defaults) = 30 \<and>
   fst (power_curve defaults ! 1) = 20 + 80 / 29 \<and>
   0 \<le> snd (power_curve defaults ! 0) \<and>
   snd (power_curve defaults ! 0) < snd (power_curve defaults ! 1)"
proof -
  have p: "0 < air_density defaults * wing_area defaults" by (simp add: defaults_def)
  note c7 = C7_power_curve [of defaults]
  from c7 have "\<forall>k<30. fst (power_curve defaults ! k) = 20 + real k * (80 / 29)" by blast
  from this [rule_format, of 1] have s1: "fst (power_curve defaults ! 1) = 20 + 80 / 29" by simp
  from c7 p have "\<forall>k<30. 0 \<le> snd (power_curve defaults ! k)" by simp
  from this [rule_format, of 0] have p0: "0 \<le> snd (power_curve defaults ! 0)" by simp
  from c7 p have "\<forall>j k. j < k \<and> k < 30 \<longrightarrow>
      snd (power_curve defaults ! j) < snd (power_curve defaults ! k)" by simp
  from this [rule_format, of 0 1]
  have p1: "snd (power_curve defaults ! 0) < snd (power_curve defaults ! 1)" by simp
  from c7 have "length (power_curve defaults) = 30" by blast
  with p s1 p0 p1 show ?thesis by simp
qed

theorem C7_counterexample:
  "\<not> snd (power_curve (defaults\<lparr>wing_area := 0\<rparr>) ! 0) < snd (power_curve (defaults\<lparr>wing_area := 0\<rparr>) ! 1)"
  by (simp add: power_curve_nth)


section \<open>The payload sweep\<close>

lemma mr_result_Some:
  assumes "mr_result i = Some m"
  shows "num_rotors i \<noteq> 0 \<and> 2 * air_density i * disk_area_of i \<noteq> 0 \<and>
    total_weight m = (payload i + frame_weight i) * gravity i \<and>
    thrust_per_motor m = total_weight m / real_of_int (num_rotors i) \<and>
    disk_area m = pi * (rotor_diameter i / 2)\<^sup>2 \<and>
    induced_velocity m = np_sqrt (Fin (thrust_per_motor m / (2 * air_density i * disk_area m))) \<and>
    power_per_motor m = np_mul (Fin (thrust_per_motor m)) (induced_velocity m) \<and>
    total_power m = np_mul (power_per_motor m) (Fin (real_of_int (num_rotors i))) \<and>
    total_energy m = real_of_int (battery_capacity i) / 1000 * battery_voltage i * 3600 \<and>
    endurance_minutes m = np_div (np_div (Fin (total_energy m)) (total_power m)) (Fin 60) \<and>
    payloads m = linspace 0.5 5.0 20 \<and>
    endurance_vals m = map (sweep_endurance i) (payloads m) \<and>
    throttle_vals m = map (sweep_throttle i) (payloads m)"
proof (cases "num_rotors i = 0 \<or> 2 * air_density i * disk_area_of i = 0")
  case True
  from multirotor_raises [OF this, of env0] assms show ?thesis by (simp add: mr_result_def)
next
  case False
  then have nz: "num_rotors i \<noteq> 0" "2 * air_density i * disk_area_of i \<noteq> 0" by simp_all
  from multirotor_returns [OF nz, of env0] obtain m' where
    m': "multirotor i env0 = Inr (env0\<lparr>endurance := Some (endurance_minutes m')\<rparr>, m')"
    and f: "total_weight m' = (payload i + frame_weight i) * gravity i \<and>
    thrust_per_motor m' = total_weight m' / real_of_int (num_rotors i) \<and>
    disk_area m' = pi * (rotor_diameter i / 2)\<^sup>2 \<and>
    induced_velocity m' = np_sqrt (Fin (thrust_per_motor m' / (2 * air_density i * disk_area m'))) \<and>
    power_per_motor m' = np_mul (Fin (thrust_per_motor m')) (induced_velocity m') \<and>
    total_power m' = np_mul (power_per_motor m') (Fin (real_of_int (num_rotors i))) \<and>
    total_energy m' = real_of_int (battery_capacity i) / 1000 * battery_voltage i * 3600 \<and>
    endurance_minutes m' = np_div (np_div (Fin (total_energy m')) (total_power m')) (Fin 60) \<and>
    payloads m' = linspace 0.5 5.0 20 \<and>
    endurance_vals m' = map (sweep_endurance i) (payloads m') \<and>
    throttle_vals m' = map (sweep_throttle i) (payloads m')"
    by blast
  from m' assms have "m' = m" by (simp add: mr_result_def)
  with f nz show ?thesis by simp
qed

lemma mr_result_returns:
  assumes "num_rotors i \<noteq> 0" "2 * air_density i * disk_area_of i \<noteq> 0"
  shows "\<exists>m. mr_result i = Some m"
  using multirotor_returns [OF assms, of env0] by (auto simp add: mr_result_def)

lemma sweep_throttle_eq:
  assumes "num_rotors i \<noteq> 0"
  shows "sweep_throttle i p =
    np_div (Fin ((p + frame_weight i) * gravity i / real_of_int (num_rotors i)))
      (Fin (9.8 * (frame_weight i / real_of_int (num_rotors i) + p / real_of_int (num_rotors i))))"
  using assms by (simp add: sweep_throttle_def Let_def)

lemma quotient_cancel:
  fixes t g n c :: real
  assumes "t \<noteq> 0" "n \<noteq> 0" "c \<noteq> 0"
  shows "t * g / n / (c * (t / n)) = g / c"
  using assms by (simp add: field_simps)

lemma sweep_throttle_const:
  assumes "num_rotors i \<noteq> 0" "frame_weight i + p \<noteq> 0"
  shows "sweep_throttle i p = Fin (gravity i / 9.8)"
proof -
  let ?n = "real_of_int (num_rotors i)"
  have n: "?n \<noteq> 0" using assms by simp
  have t: "p + frame_weight i \<noteq> 0" using assms(2) by (simp add: add.commute)
  have s: "frame_weight i / ?n + p / ?n = (p + frame_weight i) / ?n"
    by (simp add: add_divide_distrib)
  have d: "9.8 * ((p + frame_weight i) / ?n) \<noteq> 0" using n t by simp
  have q: "(p + frame_weight i) * gravity i / ?n / (9.8 * ((p + frame_weight i) / ?n)) = gravity i / 9.8"
    by (rule quotient_cancel [OF t n]) simp
  have "sweep_throttle i p =
      np_div (Fin ((p + frame_weight i) * gravity i / ?n)) (Fin (9.8 * ((p + frame_weight i) / ?n)))"
    by (simp only: sweep_throttle_eq [OF assms(1)] s)
  also have "\<dots> = Fin ((p + frame_weight i) * gravity i / ?n / (9.8 * ((p + frame_weight i) / ?n)))"
    using d by (simp only: np_div.simps if_False)
  finally show ?thesis by (simp only: q)
qed

text \<open>
  C9. In every run of the multirotor tab that returns, each of the 20 points of the sweep has
  its hover throttle computed as the thrust per motor of that point,
  \<open>(p + frame_weight) * gravity / num_rotors\<close> with the gravity input, divided by
  \<open>9.8 * (frame_weight / num_rotors + p / num_rotors)\<close> with the literal 9.8. Where
  \<open>frame_weight + p\<close> is not zero the quotient is \<open>gravity / 9.8\<close>.
\<close>

theorem C9_hover_throttle:
  assumes "mr_result i = Some m"
  shows "length (payloads m) = 20 \<and> length (throttle_vals m) = 20 \<and>
    (\<forall>k<20. throttle_vals m ! k =
       np_div (Fin ((payloads m ! k + frame_weight i) * gravity i / real_of_int (num_rotors i)))
         (Fin (9.8 * (frame_weight i / real_of_int (num_rotors i) +
                      payloads m ! k / real_of_int (num_rotors i))))) \<and>
    (\<forall>k<20. frame_weight i + payloads m ! k \<noteq> 0 \<longrightarrow>
       throttle_vals m ! k = Fin (gravity i / 9.8))"
proof -
  from mr_result_Some [OF assms] have n: "num_rotors i \<noteq> 0"
    and pl: "payloads m = linspace 0.5 5.0 20"
    and tv: "throttle_vals m = map (sweep_throttle i) (payloads m)" by simp_all
  have len: "length (payloads m) = 20" by (simp add: pl)
  have nth: "throttle_vals m ! k = sweep_throttle i (payloads m ! k)" if "k < 20" for k
    using that len by (simp add: tv)
  have len': "length (throttle_vals m) = 20" by (simp add: tv len)
  have f: "\<forall>k<20. throttle_vals m ! k =
       np_div (Fin ((payloads m ! k + frame_weight i) * gravity i / real_of_int (num_rotors i)))
         (Fin (9.8 * (frame_weight i / real_of_int (num_rotors i) +
                      payloads m ! k / real_of_int (num_rotors i))))"
    by (intro allI impI) (simp only: nth sweep_throttle_eq [OF n])
  have c: "\<forall>k<20. frame_weight i + payloads m ! k \<noteq> 0 \<longrightarrow>
       throttle_vals m ! k = Fin (gravity i / 9.8)"
  proof (intro allI impI)
    fix k :: nat assume "k < 20" and "frame_weight i + payloads m ! k \<noteq> 0"
    then show "throttle_vals m ! k = Fin (gravity i / 9.8)"
      using sweep_throttle_const [OF n, of "payloads m ! k"] nth [of k] by simp
  qed
  from len len' f c show ?thesis by blast
qed

theorem C9_hover_throttle_witness:
  "\<exists>m. mr_result defaults = Some m \<and> length (throttle_vals m) = 20 \<and>
     throttle_vals m ! 0 = Fin (9.81 / 9.8) \<and> throttle_vals m ! 19 = Fin (9.81 / 9.8)"
proof -
  have "num_rotors defaults \<noteq> 0" "2 * air_density defaults * disk_area_of defaults \<noteq> 0"
    by (simp_all add: defaults_def disk_area_of_def)
  then obtain m where m: "mr_result defaults = Some m" using mr_result_returns by blast
  note c9 = C9_hover_throttle [OF m]
  from mr_result_Some [OF m] have pl: "payloads m = linspace 0.5 5.0 20" by simp
  have p0: "payloads m ! 0 = 0.5" by (simp add: pl linspace_first)
  have p19: "payloads m ! 19 = 5" using linspace_last [of 20 "0.5" 5] by (simp add: pl)
  from c9 have a: "\<forall>k<20. frame_weight defaults + payloads m ! k \<noteq> 0 \<longrightarrow>
       throttle_vals m ! k = Fin (gravity defaults / 9.8)" by blast
  from a [rule_format, of 0] p0 have "throttle_vals m ! 0 = Fin (9.81 / 9.8)"
    by (simp add: defaults_def)
  moreover from a [rule_format, of 19] p19 have "throttle_vals m ! 19 = Fin (9.81 / 9.8)"
    by (simp add: defaults_def)
  moreover from c9 have "length (throttle_vals m) = 20" by blast
  ultimately show ?thesis using m by blast
qed


lemma sweep_endurance_finite:
  assumes n: "0 < num_rotors i" and d: "0 < 2 * air_density i * disk_area_of i"
    and g: "0 < gravity i" and p: "0 < p + frame_weight i"
  shows "sweep_endurance i p =
    Fin (real_of_int (battery_capacity i) / 1000 * battery_voltage i * 3600 /
         ((p + frame_weight i) * gravity i / real_of_int (num_rotors i) *
          sqrt ((p + frame_weight i) * gravity i / real_of_int (num_rotors i) /
                (2 * air_density i * disk_area_of i)) *
          real_of_int (num_rotors i)) / 60)"
proof -
  let ?n = "real_of_int (num_rotors i)"
  let ?d = "2 * air_density i * disk_area_of i"
  let ?t = "(p + frame_weight i) * gravity i / ?n"
  have n0: "0 < ?n" using n by simp
  have t: "0 < ?t" using p g n0 by simp
  from t d have q: "0 < ?t / ?d" by (rule divide_pos_pos)
  then have sq: "0 < sqrt (?t / ?d)" by simp
  have tp: "0 < ?t * sqrt (?t / ?d) * ?n" by (intro mult_pos_pos t sq n0)
  then have tpnz: "?t * sqrt (?t / ?d) * ?n \<noteq> 0" by (metis less_irrefl)
  have 1: "np_div (np_mul (np_add (Fin p) (Fin (frame_weight i))) (Fin (gravity i))) (Fin ?n) = Fin ?t"
    using n0 by simp
  have 2: "np_sqrt (np_div (Fin ?t) (Fin ?d)) = Fin (sqrt (?t / ?d))"
  proof -
    have dnz: "?d \<noteq> 0" using d by (metis less_irrefl)
    have qn: "\<not> ?t / ?d < 0" using q by (metis less_asym)
    show ?thesis by (simp only: np_div.simps np_sqrt.simps dnz qn if_False)
  qed
  have 3: "np_mul (np_mul (Fin ?t) (Fin (sqrt (?t / ?d)))) (Fin ?n) = Fin (?t * sqrt (?t / ?d) * ?n)"
    by simp
  have 4: "np_div (np_div (Fin E) (Fin (?t * sqrt (?t / ?d) * ?n))) (Fin 60)
      = Fin (E / (?t * sqrt (?t / ?d) * ?n) / 60)" for E
  proof -
    have "np_div (Fin E) (Fin (?t * sqrt (?t / ?d) * ?n)) = Fin (E / (?t * sqrt (?t / ?d) * ?n))"
      by (simp only: np_div.simps tpnz if_False)
    then show ?thesis by simp
  qed
  show ?thesis
    unfolding sweep_endurance_def Let_def 1 2 3 4 ..
qed

lemma hover_power_mono:
  fixes s t d n :: real
  assumes "0 < s" "s \<le> t" "0 < d" "0 < n"
  shows "0 < s * sqrt (s / d) * n \<and> s * sqrt (s / d) * n \<le> t * sqrt (t / d) * n"
proof -
  have "s / d \<le> t / d" using assms by (simp add: divide_right_mono)
  then have r: "sqrt (s / d) \<le> sqrt (t / d)" by simp
  have r0: "0 < sqrt (s / d)" using assms by simp
  have "s * sqrt (s / d) \<le> t * sqrt (t / d)"
    using assms r r0 by (intro mult_mono) simp_all
  then have "s * sqrt (s / d) * n \<le> t * sqrt (t / d) * n"
    using assms by (simp add: mult_right_mono)
  moreover have "0 < s * sqrt (s / d) * n" using assms r0 by simp
  ultimately show ?thesis by simp
qed

lemma sweep_endurance_antimono:
  assumes n: "0 < num_rotors i" and d: "0 < 2 * air_density i * disk_area_of i"
    and g: "0 < gravity i" and e: "0 \<le> real_of_int (battery_capacity i) * battery_voltage i"
    and p: "0 < p + frame_weight i" and pq: "p \<le> q"
  shows "np_le (sweep_endurance i q) (sweep_endurance i p)"
proof -
  let ?n = "real_of_int (num_rotors i)"
  let ?d = "2 * air_density i * disk_area_of i"
  let ?E = "real_of_int (battery_capacity i) / 1000 * battery_voltage i * 3600"
  let ?s = "(p + frame_weight i) * gravity i / ?n"
  let ?t = "(q + frame_weight i) * gravity i / ?n"
  have n0: "0 < ?n" using n by simp
  have q: "0 < q + frame_weight i" using p pq by simp
  have s: "0 < ?s" using p g n0 by simp
  have "(p + frame_weight i) * gravity i \<le> (q + frame_weight i) * gravity i"
    using pq g by (simp add: mult_right_mono)
  then have st: "?s \<le> ?t" using n0 by (simp add: divide_right_mono)
  from hover_power_mono [OF s st d n0]
  have pos: "0 < ?s * sqrt (?s / ?d) * ?n"
    and le: "?s * sqrt (?s / ?d) * ?n \<le> ?t * sqrt (?t / ?d) * ?n" by simp_all
  from pos le have pos': "0 < ?t * sqrt (?t / ?d) * ?n" by (rule less_le_trans)
  have E: "0 \<le> ?E" using e by (simp add: mult.commute)
  have "?E / (?t * sqrt (?t / ?d) * ?n) \<le> ?E / (?s * sqrt (?s / ?d) * ?n)"
    by (rule divide_left_mono [OF le E mult_pos_pos [OF pos' pos]])
  then have "?E / (?t * sqrt (?t / ?d) * ?n) / 60 \<le> ?E / (?s * sqrt (?s / ?d) * ?n) / 60"
    by (simp add: divide_right_mono)
  then show ?thesis
    by (simp only: sweep_endurance_finite [OF n d g p] sweep_endurance_finite [OF n d g q]
        np_le.simps)
qed

text \<open>
  C8. With the rotor count, rotor diameter, air density, gravity, frame weight, battery
  capacity and battery voltage all positive, the multirotor tab returns, its sweep has exactly
  20 points, the payloads \<open>0.5 + k * (4.5 / 19)\<close> for \<open>k\<close> from 0 to 19, from 0.5 to 5.0
  inclusive, each endurance value is the one computed for its payload, and a larger swept
  payload never has a larger endurance (all the values being finite numbers).
\<close>

theorem C8_payload_sweep:
  assumes "0 < num_rotors i" "0 < rotor_diameter i" "0 < air_density i" "0 < gravity i"
    "0 < frame_weight i" "0 < battery_capacity i" "0 < battery_voltage i"
  shows "\<exists>m. mr_result i = Some m \<and> length (payloads m) = 20 \<and>
    length (endurance_vals m) = 20 \<and> payloads m ! 0 = 0.5 \<and> payloads m ! 19 = 5 \<and>
    (\<forall>k<20. payloads m ! k = 0.5 + real k * (4.5 / 19)) \<and>
    (\<forall>k<20. endurance_vals m ! k = sweep_endurance i (payloads m ! k)) \<and>
    (\<forall>j k. j < k \<and> k < 20 \<longrightarrow> np_le (endurance_vals m ! k) (endurance_vals m ! j))"
proof -
  have da: "0 < disk_area_of i" using assms(2) by (simp add: disk_area_of_def)
  have d: "0 < 2 * air_density i * disk_area_of i"
    by (intro mult_pos_pos assms(3) da) simp
  then have dnz: "2 * air_density i * disk_area_of i \<noteq> 0" by (metis less_irrefl)
  have nnz: "num_rotors i \<noteq> 0" using assms(1) by simp
  from mr_result_returns [OF nnz dnz] obtain m where m: "mr_result i = Some m" ..
  from mr_result_Some [OF m] have pl: "payloads m = linspace 0.5 5.0 20"
    and ev: "endurance_vals m = map (sweep_endurance i) (payloads m)" by simp_all
  have len: "length (payloads m) = 20" by (simp add: pl)
  have len': "length (endurance_vals m) = 20" by (simp add: ev len)
  have first: "payloads m ! 0 = 0.5" by (simp add: pl linspace_first)
  have last: "payloads m ! 19 = 5" using linspace_last [of 20 "0.5" 5] by (simp add: pl)
  have nth: "\<forall>k<20. payloads m ! k = 0.5 + real k * (4.5 / 19)"
    by (simp add: pl linspace_nth)
  have evn: "\<forall>k<20. endurance_vals m ! k = sweep_endurance i (payloads m ! k)"
    using len by (simp add: ev)
  have e: "0 \<le> real_of_int (battery_capacity i) * battery_voltage i"
    using assms(6,7) by simp
  have mono: "\<forall>j k. j < k \<and> k < 20 \<longrightarrow> np_le (endurance_vals m ! k) (endurance_vals m ! j)"
  proof (intro allI impI)
    fix j k :: nat assume jk: "j < k \<and> k < 20"
    then have j: "j < 20" by simp
    have "(0.5::real) \<le> linspace 0.5 5 20 ! j" using j by (intro linspace_lower) simp_all
    then have pj: "0 < payloads m ! j + frame_weight i" using assms(5) by (simp add: pl)
    have "linspace 0.5 5 20 ! j < linspace 0.5 (5::real) 20 ! k"
      using jk by (intro linspace_strict_mono) simp_all
    then have le: "payloads m ! j \<le> payloads m ! k" by (simp add: pl)
    from sweep_endurance_antimono [OF assms(1) d assms(4) e pj le]
    show "np_le (endurance_vals m ! k) (endurance_vals m ! j)"
      using evn jk j by simp
  qed
  from m len len' first last nth evn mono show ?thesis by blast
qed

theorem C8_payload_sweep_witness:
  "\<exists>m. mr_result defaults = Some m \<and> length (payloads m) = 20 \<and>
     length (endurance_vals m) = 20 \<and> payloads m ! 0 = 0.5 \<and> payloads m ! 19 = 5 \<and>
     np_le (endurance_vals m ! 19) (endurance_vals m ! 0)"
proof -
  have "0 < num_rotors defaults" "0 < rotor_diameter defaults" "0 < air_density defaults"
    "0 < gravity defaults" "0 < frame_weight defaults" "0 < battery_capacity defaults"
    "0 < battery_voltage defaults"
    by (simp_all add: defaults_def)
  from C8_payload_sweep [OF this] obtain m where m: "mr_result defaults = Some m"
    "length (payloads m) = 20" "length (endurance_vals m) = 20"
    "payloads m ! 0 = 0.5" "payloads m ! 19 = 5"
    and mono: "\<forall>j k. j < k \<and> k < 20 \<longrightarrow> np_le (endurance_vals m ! k) (endurance_vals m ! j)"
    by blast
  from mono [rule_format, of 0 19] have "np_le (endurance_vals m ! 19) (endurance_vals m ! 0)"
    by simp
  with m show ?thesis by blast
qed


section \<open>Monotonicity of the stall speed\<close>

lemma stall_quotient_mono:
  fixes w g r a c :: real
  assumes "0 \<le> w" "w \<le> w'" "0 \<le> g" "g \<le> g'"
    and "0 < r'" "r' \<le> r" "0 < a'" "a' \<le> a" "0 < c'" "c' \<le> c"
  shows "sqrt (2 * w * g / (r * a * c)) \<le> sqrt (2 * w' * g' / (r' * a' * c'))"
proof -
  have "w * g \<le> w' * g'" using assms by (intro mult_mono) simp_all
  then have n: "2 * w * g \<le> 2 * w' * g'" by simp
  have "0 \<le> 2 * w * g" using assms by simp
  with n have n0: "0 \<le> 2 * w' * g'" by (rule order_trans [rotated])
  have "r' * a' \<le> r * a" using assms by (intro mult_mono) simp_all
  then have d: "r' * a' * c' \<le> r * a * c" using assms by (intro mult_mono) simp_all
  have d0: "0 < r' * a' * c'" using assms by simp
  from n0 n d0 d have "2 * w * g / (r * a * c) \<le> 2 * w' * g' / (r' * a' * c')"
    by (rule frac_le)
  then show ?thesis by simp
qed

lemma aero_stall_speed_finite:
  assumes "0 < wing_area i" "0 < air_density i" "0 < cl i" "0 \<le> weight i" "0 \<le> gravity i"
  shows "aero_stall_speed i =
    Some (Fin (sqrt (2 * weight i * gravity i / (air_density i * wing_area i * cl i))))"
proof -
  have "0 \<le> 2 * weight i * gravity i / (air_density i * wing_area i * cl i)"
    using assms by simp
  then have "\<not> 2 * weight i * gravity i / (air_density i * wing_area i * cl i) < 0"
    by (simp only: not_less)
  then show ?thesis
    by (simp only: aero_stall_speed_valid [OF assms(1,2,3)] np_sqrt.simps if_False)
qed

text \<open>
  C10, as amended. For wing area, air density and lift coefficient strictly positive and
  weight and gravity not negative, the stall speed is a finite number that is not negative;
  it does not decrease when the weight or the gravity is raised, and does not increase when
  the wing area, the air density or the lift coefficient is raised. (With a negative gravity
  and a positive weight the radicand is negative and the stall speed is \<open>nan\<close>.)
\<close>

theorem C10_stall_speed_monotone:
  assumes "0 < wing_area i" "0 < air_density i" "0 < cl i" "0 \<le> weight i" "0 \<le> gravity i"
  shows "bound_le (Some (Fin 0)) (aero_stall_speed i) \<and>
    (weight i \<le> w \<longrightarrow> bound_le (aero_stall_speed i) (aero_stall_speed (i\<lparr>weight := w\<rparr>))) \<and>
    (gravity i \<le> g \<longrightarrow> bound_le (aero_stall_speed i) (aero_stall_speed (i\<lparr>gravity := g\<rparr>))) \<and>
    (wing_area i \<le> a \<longrightarrow> bound_le (aero_stall_speed (i\<lparr>wing_area := a\<rparr>)) (aero_stall_speed i)) \<and>
    (air_density i \<le> r \<longrightarrow> bound_le (aero_stall_speed (i\<lparr>air_density := r\<rparr>)) (aero_stall_speed i)) \<and>
    (cl i \<le> c \<longrightarrow> bound_le (aero_stall_speed (i\<lparr>cl := c\<rparr>)) (aero_stall_speed i))"
proof (intro conjI impI)
  show "bound_le (Some (Fin 0)) (aero_stall_speed i)"
    using assms by (simp add: aero_stall_speed_finite [OF assms])
next
  assume h: "weight i \<le> w"
  then have "0 \<le> w" using assms(4) by simp
  then have u: "aero_stall_speed (i\<lparr>weight := w\<rparr>) =
      Some (Fin (sqrt (2 * w * gravity i / (air_density i * wing_area i * cl i))))"
    using aero_stall_speed_finite [of "i\<lparr>weight := w\<rparr>"] assms by simp
  from stall_quotient_mono [OF assms(4) h assms(5) order_refl assms(2) order_refl
      assms(1) order_refl assms(3) order_refl]
  show "bound_le (aero_stall_speed i) (aero_stall_speed (i\<lparr>weight := w\<rparr>))"
    by (simp only: aero_stall_speed_finite [OF assms] u bound_le.simps np_le.simps)
next
  assume h: "gravity i \<le> g"
  then have "0 \<le> g" using assms(5) by simp
  then have u: "aero_stall_speed (i\<lparr>gravity := g\<rparr>) =
      Some (Fin (sqrt (2 * weight i * g / (air_density i * wing_area i * cl i))))"
    using aero_stall_speed_finite [of "i\<lparr>gravity := g\<rparr>"] assms by simp
  from stall_quotient_mono [OF assms(4) order_refl assms(5) h assms(2) order_refl
      assms(1) order_refl assms(3) order_refl]
  show "bound_le (aero_stall_speed i) (aero_stall_speed (i\<lparr>gravity := g\<rparr>))"
    by (simp only: aero_stall_speed_finite [OF assms] u bound_le.simps np_le.simps)
next
  assume h: "wing_area i \<le> a"
  then have "0 < a" using assms(1) by simp
  then have u: "aero_stall_speed (i\<lparr>wing_area := a\<rparr>) =
      Some (Fin (sqrt (2 * weight i * gravity i / (air_density i * a * cl i))))"
    using aero_stall_speed_finite [of "i\<lparr>wing_area := a\<rparr>"] assms by simp
  from stall_quotient_mono [OF assms(4) order_refl assms(5) order_refl assms(2) order_refl
      assms(1) h assms(3) order_refl]
  show "bound_le (aero_stall_speed (i\<lparr>wing_area := a\<rparr>)) (aero_stall_speed i)"
    by (simp only: aero_stall_speed_finite [OF assms] u bound_le.simps np_le.simps)
next
  assume h: "air_density i \<le> r"
  then have "0 < r" using assms(2) by simp
  then have u: "aero_stall_speed (i\<lparr>air_density := r\<rparr>) =
      Some (Fin (sqrt (2 * weight i * gravity i / (r * wing_area i * cl i))))"
    using aero_stall_speed_finite [of "i\<lparr>air_density := r\<rparr>"] assms by simp
  from stall_quotient_mono [OF assms(4) order_refl assms(5) order_refl assms(2) h
      assms(1) order_refl assms(3) order_refl]
  show "bound_le (aero_stall_speed (i\<lparr>air_density := r\<rparr>)) (aero_stall_speed i)"
    by (simp only: aero_stall_speed_finite [OF assms] u bound_le.simps np_le.simps)
next
  assume h: "cl i \<le> c"
  then have "0 < c" using assms(3) by simp
  then have u: "aero_stall_speed (i\<lparr>cl := c\<rparr>) =
      Some (Fin (sqrt (2 * weight i * gravity i / (air_density i * wing_area i * c))))"
    using aero_stall_speed_finite [of "i\<lparr>cl := c\<rparr>"] assms by simp
  from stall_quotient_mono [OF assms(4) order_refl assms(5) order_refl assms(2) order_refl
      assms(1) order_refl assms(3) h]
  show "bound_le (aero_stall_speed (i\<lparr>cl := c\<rparr>)) (aero_stall_speed i)"
    by (simp only: aero_stall_speed_finite [OF assms] u bound_le.simps np_le.simps)
qed

theorem C10_stall_speed_monotone_witness:
  "bound_le (Some (Fin 0)) (aero_stall_speed defaults) \<and>
   bound_le (aero_stall_speed defaults) (aero_stall_speed (defaults\<lparr>weight := 1500\<rparr>)) \<and>
   bound_le (aero_stall_speed defaults) (aero_stall_speed (defaults\<lparr>gravity := 10\<rparr>)) \<and>
   bound_le (aero_stall_speed (defaults\<lparr>wing_area := 20\<rparr>)) (aero_stall_speed defaults) \<and>
   bound_le (aero_stall_speed (defaults\<lparr>air_density := 1.3\<rparr>)) (aero_stall_speed defaults) \<and>
   bound_le (aero_stall_speed (defaults\<lparr>cl := 1.5\<rparr>)) (aero_stall_speed defaults)"
proof -
  have h: "0 < wing_area defaults" "0 < air_density defaults" "0 < cl defaults"
    "0 \<le> weight defaults" "0 \<le> gravity defaults"
    by (simp_all add: defaults_def)
  have g: "weight defaults \<le> 1500" "gravity defaults \<le> 10" "wing_area defaults \<le> 20"
    "air_density defaults \<le> 1.3" "cl defaults \<le> 1.5"
    by (simp_all add: defaults_def)
  from C10_stall_speed_monotone [OF h, of 1500 10 20 "1.3" "1.5"] g show ?thesis by blast
qed

theorem C10_counterexample:
  "aero_stall_speed (defaults\<lparr>gravity := - 9.81\<rparr>) = Some NaN \<and>
   \<not> bound_le (Some (Fin 0)) (aero_stall_speed (defaults\<lparr>gravity := - 9.81\<rparr>))"
proof -
  have "aero_stall_speed (defaults\<lparr>gravity := - 9.81\<rparr>) = Some NaN"
    by (simp add: aero_stall_speed_valid defaults_def)
  then show ?thesis by simp
qed


section \<open>Bounds on pi\<close>

text \<open>
  The disk area of a rotor is a multiple of \<open>pi\<close>, so numbers for the hover power need
  bounds on it. They come from Machin's formula and the alternating series of the
  arctangent, whose partial sums enclose its value.
\<close>

lemma arctan_terms_null:
  fixes x :: real
  assumes "0 \<le> x" "x < 1"
  shows "(\<lambda>k. 1 / real (k * 2 + 1) * x ^ (k * 2 + 1)) \<longlonglongrightarrow> 0"
proof (rule tendsto_0_le [where K = 1])
  show "(\<lambda>k. x ^ k) \<longlonglongrightarrow> 0" using assms by (rule LIMSEQ_realpow_zero)
  show "\<forall>\<^sub>F k in sequentially. norm (1 / real (k * 2 + 1) * x ^ (k * 2 + 1)) \<le> norm (x ^ k) * 1"
  proof (rule always_eventually, rule allI)
    fix k :: nat
    have a: "x ^ (k * 2 + 1) \<le> x ^ k" using assms by (intro power_decreasing) simp_all
    have b: "1 / real (k * 2 + 1) \<le> 1" by simp
    have "1 / real (k * 2 + 1) * x ^ (k * 2 + 1) \<le> 1 * x ^ k"
      using a b assms by (intro mult_mono) simp_all
    then show "norm (1 / real (k * 2 + 1) * x ^ (k * 2 + 1)) \<le> norm (x ^ k) * 1"
      using assms by simp
  qed
qed

lemma arctan_terms_decreasing:
  fixes x :: real
  assumes "0 \<le> x" "x < 1"
  shows "1 / real (Suc k * 2 + 1) * x ^ (Suc k * 2 + 1) \<le> 1 / real (k * 2 + 1) * x ^ (k * 2 + 1)"
proof -
  have "x ^ (Suc k * 2 + 1) \<le> x ^ (k * 2 + 1)" using assms by (intro power_decreasing) simp_all
  moreover have "1 / real (Suc k * 2 + 1) \<le> 1 / real (k * 2 + 1)"
    by (intro divide_left_mono) simp_all
  ultimately show ?thesis using assms by (intro mult_mono) simp_all
qed

lemma arctan_enclosure:
  fixes x :: real
  assumes "0 \<le> x" "x < 1"
  shows "(\<Sum>k<2 * n. (- 1) ^ k * (1 / real (k * 2 + 1) * x ^ (k * 2 + 1))) \<le> arctan x"
    and "arctan x \<le> (\<Sum>k<2 * n + 1. (- 1) ^ k * (1 / real (k * 2 + 1) * x ^ (k * 2 + 1)))"
proof -
  let ?a = "\<lambda>k. 1 / real (k * 2 + 1) * x ^ (k * 2 + 1)"
  have z: "?a \<longlonglongrightarrow> 0" using assms by (rule arctan_terms_null)
  have p: "0 \<le> ?a k" for k using assms by simp
  have d: "?a (Suc k) \<le> ?a k" for k using assms by (rule arctan_terms_decreasing)
  have s: "arctan x = (\<Sum>k. (- 1) ^ k * ?a k)" using assms by (intro arctan_series) simp
  show "(\<Sum>k<2 * n. (- 1) ^ k * ?a k) \<le> arctan x"
    unfolding s by (rule summable_Leibniz'(2) [OF z p d])
  show "arctan x \<le> (\<Sum>k<2 * n + 1. (- 1) ^ k * ?a k)"
    unfolding s by (rule summable_Leibniz'(4) [OF z p d])
qed

lemma pi_lower: "3.14159 \<le> pi"
proof -
  have a: "(\<Sum>k<2 * 2. (- 1) ^ k * (1 / real (k * 2 + 1) * (1 / 5) ^ (k * 2 + 1))) \<le> arctan (1 / 5 :: real)"
    by (rule arctan_enclosure) simp_all
  have b: "arctan (1 / 239 :: real) \<le> (\<Sum>k<2 * 0 + 1. (- 1) ^ k * (1 / real (k * 2 + 1) * (1 / 239) ^ (k * 2 + 1)))"
    by (rule arctan_enclosure) simp_all
  have "pi = 16 * arctan (1 / 5) - 4 * arctan (1 / 239)" using machin by simp
  with a b show ?thesis by (simp add: eval_nat_numeral)
qed

lemma pi_upper: "pi \<le> 3.1417"
proof -
  have a: "arctan (1 / 5 :: real) \<le> (\<Sum>k<2 * 1 + 1. (- 1) ^ k * (1 / real (k * 2 + 1) * (1 / 5) ^ (k * 2 + 1)))"
    by (rule arctan_enclosure) simp_all
  have b: "(\<Sum>k<2 * 1. (- 1) ^ k * (1 / real (k * 2 + 1) * (1 / 239) ^ (k * 2 + 1))) \<le> arctan (1 / 239 :: real)"
    by (rule arctan_enclosure) simp_all
  have "pi = 16 * arctan (1 / 5) - 4 * arctan (1 / 239)" using machin by simp
  with a b show ?thesis by (simp add: eval_nat_numeral)
qed

section \<open>Hover power at the default inputs\<close>

lemma hover_radicand:
  "(981 / 160) / (2 * 1.225 * (pi * (0.3 / 2)\<^sup>2)) = (49050 / 441) / pi"
  by (simp add: power2_eq_square)

lemma hover_radicand_lower: "(5.95)\<^sup>2 \<le> (49050 / 441) / pi"
proof -
  have "(5.95)\<^sup>2 * pi \<le> (5.95)\<^sup>2 * 3.1417"
    using pi_upper by (intro mult_left_mono) simp_all
  also have "\<dots> \<le> (49050 / 441 :: real)" by (simp add: power2_eq_square)
  finally show ?thesis by (simp only: pos_le_divide_eq [OF pi_gt_zero])
qed

lemma hover_radicand_upper: "(49050 / 441) / pi \<le> (5.9502)\<^sup>2"
proof -
  have "(49050 / 441 :: real) \<le> (5.9502)\<^sup>2 * 3.14159" by (simp add: power2_eq_square)
  also have "\<dots> \<le> (5.9502)\<^sup>2 * pi"
    using pi_lower by (intro mult_left_mono) simp_all
  finally show ?thesis by (simp only: pos_divide_le_eq [OF pi_gt_zero])
qed

lemma hover_velocity_bounds:
  "5.95 \<le> sqrt ((49050 / 441) / pi)" "sqrt ((49050 / 441) / pi) \<le> 5.9502"
proof -
  show "5.95 \<le> sqrt ((49050 / 441) / pi)"
    using hover_radicand_lower by (rule real_le_rsqrt)
  show "sqrt ((49050 / 441) / pi) \<le> 5.9502"
    using hover_radicand_upper by (intro real_le_lsqrt) simp_all
qed

lemma mr_result_defaults:
  "\<exists>m. mr_result defaults = Some m \<and> thrust_per_motor m = 981 / 160 \<and>
     induced_velocity m = Fin (sqrt ((49050 / 441) / pi)) \<and>
     total_power m = Fin (981 / 160 * sqrt ((49050 / 441) / pi) * 4)"
proof -
  have "num_rotors defaults \<noteq> 0" "2 * air_density defaults * disk_area_of defaults \<noteq> 0"
    by (simp_all add: defaults_def disk_area_of_def)
  then obtain m where m: "mr_result defaults = Some m" using mr_result_returns by blast
  note f = mr_result_Some [OF m]
  from f have tw: "total_weight m = (payload defaults + frame_weight defaults) * gravity defaults"
    by blast
  from f have "thrust_per_motor m = total_weight m / real_of_int (num_rotors defaults)" by blast
  then have tpm: "thrust_per_motor m = 981 / 160" by (simp add: tw defaults_def)
  from f have da: "disk_area m = pi * (rotor_diameter defaults / 2)\<^sup>2" by blast
  from f have "induced_velocity m =
      np_sqrt (Fin (thrust_per_motor m / (2 * air_density defaults * disk_area m)))" by blast
  then have "induced_velocity m = np_sqrt (Fin ((981 / 160) / (2 * 1.225 * (pi * (0.3 / 2)\<^sup>2))))"
    by (simp add: tpm da defaults_def)
  then have "induced_velocity m = np_sqrt (Fin ((49050 / 441) / pi))"
    by (simp only: hover_radicand)
  moreover have "\<not> (49050 / 441) / pi < 0" by (simp add: not_less)
  ultimately have iv: "induced_velocity m = Fin (sqrt ((49050 / 441) / pi))"
    by (simp only: np_sqrt.simps if_False)
  from f have "power_per_motor m = np_mul (Fin (thrust_per_motor m)) (induced_velocity m)" by blast
  then have ppm: "power_per_motor m = Fin (981 / 160 * sqrt ((49050 / 441) / pi))"
    by (simp only: tpm iv np_mul.simps)
  from f have "total_power m = np_mul (power_per_motor m) (Fin (real_of_int (num_rotors defaults)))"
    by blast
  then have "total_power m = np_mul (Fin (981 / 160 * sqrt ((49050 / 441) / pi))) (Fin 4)"
    by (simp add: ppm defaults_def)
  then have tp: "total_power m = Fin (981 / 160 * sqrt ((49050 / 441) / pi) * 4)"
    by (simp only: np_mul.simps)
  from m tpm iv tp show ?thesis by blast
qed

lemma total_power_defaults:
  "in_range (map_option total_power (mr_result defaults)) 145.92 145.93"
proof -
  from mr_result_defaults obtain m where m: "mr_result defaults = Some m"
    and tp: "total_power m = Fin (981 / 160 * sqrt ((49050 / 441) / pi) * 4)" by blast
  have "981 / 160 * 5.95 * 4 \<le> 981 / 160 * sqrt ((49050 / 441) / pi) * 4"
    using hover_velocity_bounds(1) by simp
  moreover have "(145.92 :: real) \<le> 981 / 160 * 5.95 * 4" by simp
  ultimately have lo: "145.92 \<le> 981 / 160 * sqrt ((49050 / 441) / pi) * 4" by (rule order_trans [rotated])
  have "981 / 160 * sqrt ((49050 / 441) / pi) * 4 \<le> 981 / 160 * 5.9502 * 4"
    using hover_velocity_bounds(2) by simp
  moreover have "981 / 160 * 5.9502 * 4 \<le> (145.93 :: real)" by simp
  ultimately have hi: "981 / 160 * sqrt ((49050 / 441) / pi) * 4 \<le> 145.93" by (rule order_trans)
  from lo hi show ?thesis by (simp only: m tp option.map in_range_Fin)
qed

text \<open>
  C3, as amended. Whenever the multirotor tab returns (the rotor count and
  \<open>2 * air_density * disk_area\<close> not zero, and only then), its hover results are the chain
  total weight \<open>(payload + frame_weight) * gravity\<close>, thrust per motor
  \<open>total_weight / num_rotors\<close>, disk area \<open>pi * (rotor_diameter / 2)\<^sup>2\<close>, induced velocity
  \<open>np.sqrt(thrust_per_motor / (2 * air_density * disk_area))\<close>, power per motor
  \<open>thrust_per_motor * induced_velocity\<close>, total power \<open>power_per_motor * num_rotors\<close>, total
  energy \<open>battery_capacity / 1000 * battery_voltage * 3600\<close> and endurance
  \<open>total_energy / total_power / 60\<close>. At the default inputs the thrust per motor is 6.13 N,
  the induced velocity 5.95 m/s and the total power 145.9 W (between 145.92 and 145.93),
  not 205.8 W.
\<close>

theorem C3_hover_chain:
  "(mr_result i = Some m \<longrightarrow>
      total_weight m = (payload i + frame_weight i) * gravity i \<and>
      thrust_per_motor m = total_weight m / real_of_int (num_rotors i) \<and>
      disk_area m = pi * (rotor_diameter i / 2)\<^sup>2 \<and>
      induced_velocity m = np_sqrt (Fin (thrust_per_motor m / (2 * air_density i * disk_area m))) \<and>
      power_per_motor m = np_mul (Fin (thrust_per_motor m)) (induced_velocity m) \<and>
      total_power m = np_mul (power_per_motor m) (Fin (real_of_int (num_rotors i))) \<and>
      total_energy m = real_of_int (battery_capacity i) / 1000 * battery_voltage i * 3600 \<and>
      endurance_minutes m = np_div (np_div (Fin (total_energy m)) (total_power m)) (Fin 60)) \<and>
   (mr_result i \<noteq> None \<longleftrightarrow> num_rotors i \<noteq> 0 \<and> 2 * air_density i * disk_area_of i \<noteq> 0) \<and>
   in_range (map_option (\<lambda>m. Fin (thrust_per_motor m)) (mr_result defaults)) 6.125 6.135 \<and>
   in_range (map_option induced_velocity (mr_result defaults)) 5.95 5.9502 \<and>
   in_range (map_option total_power (mr_result defaults)) 145.92 145.93"
proof (intro conjI impI)
  show "mr_result i \<noteq> None \<longleftrightarrow> num_rotors i \<noteq> 0 \<and> 2 * air_density i * disk_area_of i \<noteq> 0"
  proof
    assume "mr_result i \<noteq> None"
    then obtain m' where "mr_result i = Some m'" by blast
    from mr_result_Some [OF this]
    show "num_rotors i \<noteq> 0 \<and> 2 * air_density i * disk_area_of i \<noteq> 0" by blast
  next
    assume "num_rotors i \<noteq> 0 \<and> 2 * air_density i * disk_area_of i \<noteq> 0"
    then show "mr_result i \<noteq> None" using mr_result_returns [of i] by auto
  qed
next
  from mr_result_defaults obtain m' where "mr_result defaults = Some m'"
    "thrust_per_motor m' = 981 / 160" by blast
  then show "in_range (map_option (\<lambda>m. Fin (thrust_per_motor m)) (mr_result defaults)) 6.125 6.135"
    by simp
next
  from mr_result_defaults obtain m' where m': "mr_result defaults = Some m'"
    "induced_velocity m' = Fin (sqrt ((49050 / 441) / pi))" by blast
  from hover_velocity_bounds
  show "in_range (map_option induced_velocity (mr_result defaults)) 5.95 5.9502"
    by (simp only: m' option.map in_range_Fin)
next
  show "in_range (map_option total_power (mr_result defaults)) 145.92 145.93"
    by (rule total_power_defaults)
qed (use mr_result_Some [of i m] in blast)+

theorem C3_hover_chain_witness:
  "\<exists>m. mr_result defaults = Some m \<and>
     total_weight m = (1.0 + 1.5) * 9.81 \<and>
     thrust_per_motor m = total_weight m / 4 \<and>
     power_per_motor m = np_mul (Fin (thrust_per_motor m)) (induced_velocity m) \<and>
     total_power m = np_mul (power_per_motor m) (Fin 4) \<and>
     endurance_minutes m = np_div (np_div (Fin (total_energy m)) (total_power m)) (Fin 60)"
proof -
  from mr_result_defaults obtain m where m: "mr_result defaults = Some m" by blast
  from C3_hover_chain [of defaults m] m have
    "total_weight m = (payload defaults + frame_weight defaults) * gravity defaults"
    "thrust_per_motor m = total_weight m / real_of_int (num_rotors defaults)"
    "power_per_motor m = np_mul (Fin (thrust_per_motor m)) (induced_velocity m)"
    "total_power m = np_mul (power_per_motor m) (Fin (real_of_int (num_rotors defaults)))"
    "endurance_minutes m = np_div (np_div (Fin (total_energy m)) (total_power m)) (Fin 60)"
    by blast+
  then have "total_weight m = (1.0 + 1.5) * 9.81 \<and>
     thrust_per_motor m = total_weight m / 4 \<and>
     power_per_motor m = np_mul (Fin (thrust_per_motor m)) (induced_velocity m) \<and>
     total_power m = np_mul (power_per_motor m) (Fin 4) \<and>
     endurance_minutes m = np_div (np_div (Fin (total_energy m)) (total_power m)) (Fin 60)"
    by (simp add: defaults_def)
  with m show ?thesis by blast
qed

theorem C3_counterexample:
  "\<not> in_range (map_option total_power (mr_result defaults)) 205.75 205.85"
proof -
  from mr_result_defaults obtain m where m: "mr_result defaults = Some m"
    and tp: "total_power m = Fin (981 / 160 * sqrt ((49050 / 441) / pi) * 4)" by blast
  have "981 / 160 * sqrt ((49050 / 441) / pi) * 4 \<le> 981 / 160 * 5.9502 * 4"
    using hover_velocity_bounds(2) by simp
  moreover have "981 / 160 * 5.9502 * 4 < (205.75 :: real)" by simp
  ultimately have "981 / 160 * sqrt ((49050 / 441) / pi) * 4 < 205.75" by (rule le_less_trans)
  then have "\<not> 205.75 \<le> 981 / 160 * sqrt ((49050 / 441) / pi) * 4" by (simp only: not_le)
  then show ?thesis by (simp only: m tp option.map in_range_Fin) simp
qed

end
